theory Spec2Isabelle
  imports Complex_Main
begin

section \<open>The WebGPU triangle demo (webgpu-engine.js)\<close>

text \<open>
  The script keeps two global objects, \<open>gpu\<close> (the WebGPU handles) and \<open>data\<close> (the host
  arrays), initialises them once in \<open>initializeWebGPU\<close> and redraws in \<open>render\<close>, which
  \<open>runGameLoop\<close> calls once per animation frame.  The model is a state record holding both
  objects together with what the browser and the device hold on the script's behalf: the
  closure of the resize observer, the console, the device's buffer memory and the logs of
  the queue (every \<open>writeBuffer\<close> and every \<open>submit\<close>).

  Numbers: a JavaScript number is the real number it denotes, rounded to a double by
  every operation, and an element of a \<open>Float32Array\<close> is rounded to single precision
  when it is stored.  Infinities and \<open>NaN\<close> are not modelled: no clock reading or layout
  size comes near the overflow threshold.  The status element \<open>#message\<close>, its styling
  and the \<open>device.lost\<close> handler are left out: they change nothing that \<open>render\<close> or
  the resize observer reads.
\<close>

subsection \<open>Floating point\<close>

text \<open>
  Rounding to the nearest number of a binary format with \<open>p\<close> bits of precision and least
  exponent \<open>emin\<close>, ties to the even one: the numbers of the binade of \<open>x\<close> are the
  multiples of \<open>2 ^ (e - p + 1)\<close>, where \<open>2 ^ e \<le> |x| < 2 ^ (e + 1)\<close>, and below
  \<open>2 ^ emin\<close> the subnormal numbers keep the spacing of the least binade.
\<close>

definition round_half_even :: "real \<Rightarrow> int" where
  "round_half_even q =
     (let f = \<lfloor>q\<rfloor> in
      if q - of_int f < 1 / 2 then f
      else if 1 / 2 < q - of_int f then f + 1
      else if even f then f else f + 1)"

definition float_round :: "nat \<Rightarrow> int \<Rightarrow> real \<Rightarrow> real" where
  "float_round p emin x =
     (if x = 0 then 0
      else
        (let e = max \<lfloor>log 2 \<bar>x\<bar>\<rfloor> emin;
             ulp = 2 powi (e - int p + 1)
         in of_int (round_half_even (x / ulp)) * ulp))"

definition float64 :: "real \<Rightarrow> real" where
  "float64 = float_round 53 (- 1022)"

definition float32 :: "real \<Rightarrow> real" where
  "float32 = float_round 24 (- 126)"

text \<open>
  \<open>Math.sin\<close> and \<open>Math.cos\<close> are approximated by the implementation; the model takes
  the double nearest to the sine and to the cosine, which at 0 is the result the language
  requires (\<open>sin 0 = 0\<close>, \<open>cos 0 = 1\<close>).
\<close>

definition Math_sin :: "real \<Rightarrow> real" where
  "Math_sin x = float64 (sin x)"

definition Math_cos :: "real \<Rightarrow> real" where
  "Math_cos x = float64 (cos x)"

subsection \<open>Values of the JavaScript and WebGPU interfaces\<close>

datatype error_name = Error | TypeError | OperationError | InvalidStateError

type_synonym js_error = "error_name \<times> string"

datatype log_level = console_log | console_warn | console_error

datatype GPUAdapter = GPUAdapter

datatype GPUDevice = GPUDevice

record HTMLCanvasElement =
  canvas_id :: string
  canvas_width :: nat
  canvas_height :: nat

record canvas_configuration =
  conf_device :: GPUDevice
  conf_format :: string
  conf_alphaMode :: string

datatype GPUCanvasContext = GPUCanvasContext "canvas_configuration option"

datatype buffer_usage = VERTEX | UNIFORM | COPY_DST

record GPUBuffer =
  buf_size :: nat
  buf_usage :: "buffer_usage list"
  buf_contents :: "real list"

record vertex_attribute =
  shaderLocation :: nat
  attr_offset :: nat
  attr_format :: string

record vertex_buffer_layout =
  arrayStride :: nat
  attributes :: "vertex_attribute list"

text \<open>
  What the WGSL source declares to the pipeline: the uniform variable with its group and
  binding, and the two entry points with the locations and types of their parameters.
  What the entry points compute is \<open>vs_main\<close> and \<open>fs_main\<close> below.
\<close>

record wgsl_module =
  wgsl_uniform :: "nat \<times> nat \<times> string"
  wgsl_vertex_entry :: string
  wgsl_vertex_inputs :: "(nat \<times> string) list"
  wgsl_fragment_entry :: string
  wgsl_fragment_inputs :: "(nat \<times> string) list"

datatype GPUShaderModule = GPUShaderModule wgsl_module

record GPURenderPipeline =
  pipeline_layout :: string
  vertex_module :: GPUShaderModule
  vertex_entryPoint :: string
  vertex_buffers :: "vertex_buffer_layout list"
  fragment_module :: GPUShaderModule
  fragment_entryPoint :: string
  fragment_targets :: "string list"
  primitive_topology :: string

record GPUBindGroup =
  bg_layout :: nat
  bg_entries :: "(nat \<times> nat) list"

datatype GPUTextureView = GPUTextureView nat nat string

datatype GPUColor = GPUColor real real real real

record color_attachment =
  att_view :: GPUTextureView
  att_clearValue :: GPUColor
  att_loadOp :: string
  att_storeOp :: string

datatype pass_command =
    setPipeline GPURenderPipeline
  | setVertexBuffer nat "nat option"
  | setBindGroup nat "GPUBindGroup option"
  | draw nat nat nat nat

datatype GPUCommandBuffer = RenderPass "color_attachment list" "pass_command list"

record resize_entry =
  entry_target :: string
  contentRect_width :: real
  contentRect_height :: real

subsection \<open>The state\<close>

text \<open>
  The fields \<open>gpu_*\<close> are the properties of the global \<open>gpu\<close>, \<open>None\<close> for \<open>null\<close>;
  buffers are held by their handle, an index into \<open>device_buffers\<close>.  The fields
  \<open>data_*\<close> are the two arrays of the global \<open>data\<close>.  \<open>observer_dpr\<close> is the
  \<open>dpr\<close> captured by the resize observer once it is registered, \<open>raf_requested\<close> says
  that \<open>runGameLoop\<close> is registered for the next animation frame.  \<open>device_errors\<close>
  are the validation errors the device reports to the page without an exception; the
  script never reads them.
\<close>

record state =
  gpu_adapter :: "GPUAdapter option"
  gpu_device :: "GPUDevice option"
  gpu_canvas :: "HTMLCanvasElement option"
  gpu_context :: "GPUCanvasContext option"
  gpu_presentationFormat :: "string option"
  gpu_renderPipeline :: "GPURenderPipeline option"
  gpu_vertexBuffer :: "nat option"
  gpu_uniformBuffer :: "nat option"
  gpu_bindGroup :: "GPUBindGroup option"
  data_vertices :: "real list"
  data_uniforms :: "real list"
  observer_dpr :: "real option"
  raf_requested :: bool
  console :: "(log_level \<times> string) list"
  device_buffers :: "GPUBuffer list"
  queue_writes :: "(nat \<times> nat \<times> real list) list"
  queue_submits :: "GPUCommandBuffer list list"
  device_errors :: "string list"

definition byteLength :: "real list \<Rightarrow> nat" where
  "byteLength xs = 4 * length xs"

definition initial_state :: state where
  "initial_state =
     \<lparr> gpu_adapter = None, gpu_device = None, gpu_canvas = None, gpu_context = None,
       gpu_presentationFormat = None, gpu_renderPipeline = None, gpu_vertexBuffer = None,
       gpu_uniformBuffer = None, gpu_bindGroup = None,
       data_vertices =
         [ 0.0,  0.5,   1.0, 0.0, 0.0, 1.0,
          -0.5, -0.5,   0.0, 1.0, 0.0, 1.0,
           0.5, -0.5,   0.0, 0.0, 1.0, 1.0],
       data_uniforms = [0.0, 0.0, 0.0, 0.0],
       observer_dpr = None, raf_requested = False, console = [],
       device_buffers = [], queue_writes = [], queue_submits = [], device_errors = [] \<rparr>"

definition SIZEOF_UNIFORMS :: nat where
  "SIZEOF_UNIFORMS = byteLength (data_uniforms initial_state)"

subsection \<open>The environment of the initialisation\<close>

text \<open>
  Everything \<open>initializeWebGPU\<close> asks of the browser is a field of the environment: whether
  \<open>navigator.gpu\<close> exists, what the two promises settle to, the canvas element (its width
  and height attributes), the device pixel ratio, the layout rectangle of the canvas,
  whether the canvas gives a WebGPU context, the preferred format, whether the device
  compiles the shader, and for each call on the device or the context whether it throws.
  A shader that does not compile makes no call throw: \<open>createShaderModule\<close> returns a
  module all the same and the device reports a validation error.
\<close>

datatype api_call =
    configure | createBuffer | writeBuffer | createShaderModule | createRenderPipeline
  | getBindGroupLayout | createBindGroup

record environment =
  navigator_gpu :: bool
  requestAdapter :: "js_error + GPUAdapter option"
  requestDevice :: "js_error + GPUDevice option"
  game_canvas :: "(nat \<times> nat) option"
  devicePixelRatio :: real
  getBoundingClientRect :: "real \<times> real"
  getContext_webgpu :: bool
  getPreferredCanvasFormat :: string
  shader_compiles :: bool
  throws :: "api_call \<Rightarrow> js_error option"

type_synonym 'a outcome = "(js_error + 'a) \<times> state"

definition seq :: "(state \<Rightarrow> unit outcome) \<Rightarrow> (state \<Rightarrow> 'a outcome) \<Rightarrow> state \<Rightarrow> 'a outcome" where
  "seq f g s = (case f s of (Inl e, s') \<Rightarrow> (Inl e, s') | (Inr u, s') \<Rightarrow> g s')"

definition call :: "environment \<Rightarrow> api_call \<Rightarrow> (state \<Rightarrow> state) \<Rightarrow> state \<Rightarrow> unit outcome" where
  "call env c f s = (case throws env c of Some e \<Rightarrow> (Inl e, s) | None \<Rightarrow> (Inr (), f s))"

definition console_add :: "log_level \<Rightarrow> string \<Rightarrow> state \<Rightarrow> state" where
  "console_add l m s = s\<lparr>console := console s @ [(l, m)]\<rparr>"

subsection \<open>The device\<close>

text \<open>
  \<open>device.createBuffer\<close> gives a zero-filled buffer under a fresh handle.
  \<open>queue.writeBuffer(buffer, offset, data)\<close> throws a \<open>TypeError\<close> on \<open>null\<close> and an
  \<open>OperationError\<close> when the data does not fit; otherwise it overwrites the buffer from
  the offset on and is logged.
\<close>

definition device_createBuffer :: "nat \<Rightarrow> buffer_usage list \<Rightarrow> state \<Rightarrow> nat \<times> state" where
  "device_createBuffer n usage s =
     (length (device_buffers s),
      s\<lparr>device_buffers := device_buffers s @
           [\<lparr>buf_size = n, buf_usage = usage, buf_contents = replicate (n div 4) 0\<rparr>]\<rparr>)"

definition queue_writeBuffer :: "nat option \<Rightarrow> nat \<Rightarrow> real list \<Rightarrow> state \<Rightarrow> unit outcome" where
  "queue_writeBuffer buffer off xs s =
     (case buffer of
        None \<Rightarrow> (Inl (TypeError, ''parameter 1 is not of type GPUBuffer''), s)
      | Some b \<Rightarrow>
          if b < length (device_buffers s) \<and> off mod 4 = 0
             \<and> off + byteLength xs \<le> buf_size (device_buffers s ! b)
          then
            (let old = device_buffers s ! b;
                 new = take (off div 4) (buf_contents old) @ xs
                       @ drop (off div 4 + length xs) (buf_contents old)
             in (Inr (),
                 s\<lparr>device_buffers := (device_buffers s)[b := old\<lparr>buf_contents := new\<rparr>],
                   queue_writes := queue_writes s @ [(b, off, xs)]\<rparr>))
          else (Inl (OperationError, ''write out of range''), s))"

subsection \<open>The shader and the vertex layout\<close>

definition shaderCode :: wgsl_module where
  "shaderCode =
     \<lparr> wgsl_uniform = (0, 0, ''u_globals''),
       wgsl_vertex_entry = ''vs_main'',
       wgsl_vertex_inputs = [(0, ''vec2<f32>''), (1, ''vec4<f32>'')],
       wgsl_fragment_entry = ''fs_main'',
       wgsl_fragment_inputs = [(0, ''vec4<f32>'')] \<rparr>"

type_synonym vec2 = "real \<times> real"

type_synonym vec4 = "real \<times> real \<times> real \<times> real"




definition vertexBufferLayout :: vertex_buffer_layout where
  "vertexBufferLayout =
     \<lparr> arrayStride = 6 * 4,
       attributes =
         [\<lparr>shaderLocation = 0, attr_offset = 0, attr_format = ''float32x2''\<rparr>,
          \<lparr>shaderLocation = 1, attr_offset = 2 * 4, attr_format = ''float32x4''\<rparr>] \<rparr>"

subsection \<open>initializeWebGPU\<close>

definition throw :: "string \<Rightarrow> state \<Rightarrow> 'a outcome" where
  "throw m s = (Inl (Error, m), s)"

text \<open>
  \<open>Math.round\<close> rounds to the nearest integer, halves upwards.  The width and height of
  a canvas are unsigned 32-bit attributes; the sizes assigned here are products of positive
  layout sizes and the device pixel ratio, rounded, and are stored as natural numbers, which
  is right for a positive ratio and sizes below \<open>2 ^ 31\<close>.
\<close>

definition Math_round :: "real \<Rightarrow> int" where
  "Math_round x = \<lfloor>x + 1 / 2\<rfloor>"

definition set_canvas_size :: "real \<Rightarrow> real \<Rightarrow> real \<Rightarrow> state \<Rightarrow> state" where
  "set_canvas_size dpr w h s =
     (case gpu_canvas s of
        None \<Rightarrow> s
      | Some c \<Rightarrow>
          s\<lparr>gpu_canvas :=
              Some (c\<lparr>canvas_width := nat (Math_round (float64 (w * dpr))),
                       canvas_height := nat (Math_round (float64 (h * dpr)))\<rparr>)\<rparr>)"

text \<open>Step 1: the adapter and the device; a promise that rejects throws at its await.\<close>

definition request_adapter_and_device :: "environment \<Rightarrow> state \<Rightarrow> unit outcome" where
  "request_adapter_and_device env s =
     (case requestAdapter env of
        Inl e \<Rightarrow> (Inl e, s)
      | Inr a \<Rightarrow>
          (let s1 = s\<lparr>gpu_adapter := a\<rparr> in
           if a = None then throw ''Failed to get GPU adapter.'' s1
           else
             (case requestDevice env of
                Inl e \<Rightarrow> (Inl e, s1)
              | Inr d \<Rightarrow>
                  (let s2 = s1\<lparr>gpu_device := d\<rparr> in
                   if d = None then throw ''Failed to get GPU device.'' s2
                   else (Inr (), s2)))))"

text \<open>
  Step 2: the canvas, the resize observer, the first size, the context.  The observer keeps
  \<open>dpr\<close>, which is \<open>window.devicePixelRatio || 1\<close>: 1 when the ratio is 0.  The ratio
  and the sizes of the layout rectangle are doubles.
\<close>

definition get_canvas_and_context :: "environment \<Rightarrow> state \<Rightarrow> unit outcome" where
  "get_canvas_and_context env s =
     (let s1 = s\<lparr>gpu_canvas :=
                  map_option (\<lambda>(w, h). \<lparr>canvas_id = ''game-canvas'', canvas_width = w,
                                          canvas_height = h\<rparr>) (game_canvas env)\<rparr>
      in
      if gpu_canvas s1 = None then throw ''Failed to get canvas element.'' s1
      else
        (let dpr = (if float64 (devicePixelRatio env) = 0 then 1
                    else float64 (devicePixelRatio env));
             s2 = s1\<lparr>observer_dpr := Some dpr\<rparr>;
             width = float64 (fst (getBoundingClientRect env));
             height = float64 (snd (getBoundingClientRect env));
             s3 = (if width > 0 \<and> height > 0 then set_canvas_size dpr width height s2 else s2);
             s4 = s3\<lparr>gpu_context :=
                      (if getContext_webgpu env then Some (GPUCanvasContext None) else None)\<rparr>
         in
         if gpu_context s4 = None then throw ''Failed to get WebGPU context from canvas.'' s4
         else (Inr (), s4)))"

text \<open>Step 3: the presentation format and the configuration of the context.\<close>

definition configure_context :: "environment \<Rightarrow> state \<Rightarrow> unit outcome" where
  "configure_context env s =
     (let s1 = s\<lparr>gpu_presentationFormat := Some (getPreferredCanvasFormat env)\<rparr> in
      call env configure
        (\<lambda>t. t\<lparr>gpu_context :=
                 Some (GPUCanvasContext
                   (Some \<lparr>conf_device = the (gpu_device t),
                          conf_format = the (gpu_presentationFormat t),
                          conf_alphaMode = ''premultiplied''\<rparr>))\<rparr>) s1)"

text \<open>Steps 4 and 5: each buffer is created, stored in \<open>gpu\<close> and written once.\<close>

definition create_vertex_buffer :: "environment \<Rightarrow> state \<Rightarrow> unit outcome" where
  "create_vertex_buffer env =
     seq (call env createBuffer
            (\<lambda>t. let (b, t') = device_createBuffer (byteLength (data_vertices t))
                                  [VERTEX, COPY_DST] t
                  in t'\<lparr>gpu_vertexBuffer := Some b\<rparr>))
      (seq (call env writeBuffer id)
        (\<lambda>t. queue_writeBuffer (gpu_vertexBuffer t) 0 (data_vertices t) t))"

definition create_uniform_buffer :: "environment \<Rightarrow> state \<Rightarrow> unit outcome" where
  "create_uniform_buffer env =
     seq (call env createBuffer
            (\<lambda>t. let (b, t') = device_createBuffer SIZEOF_UNIFORMS [UNIFORM, COPY_DST] t
                  in t'\<lparr>gpu_uniformBuffer := Some b\<rparr>))
      (seq (call env writeBuffer id)
        (\<lambda>t. queue_writeBuffer (gpu_uniformBuffer t) 0 (data_uniforms t) t))"

text \<open>
  Steps 6 to 8: the shader module, the vertex layout, the pipeline.  Neither the module nor
  the pipeline is tested afterwards.
\<close>

definition create_pipeline :: "environment \<Rightarrow> state \<Rightarrow> unit outcome" where
  "create_pipeline env =
     seq (call env createShaderModule
            (\<lambda>t. if shader_compiles env then t
                  else t\<lparr>device_errors := device_errors t @ [''shader compilation failed'']\<rparr>))
       (call env createRenderPipeline
          (\<lambda>t. let shaderModule = GPUShaderModule shaderCode in
                t\<lparr>gpu_renderPipeline :=
                    Some \<lparr> pipeline_layout = ''auto'',
                           vertex_module = shaderModule,
                           vertex_entryPoint = ''vs_main'',
                           vertex_buffers = [vertexBufferLayout],
                           fragment_module = shaderModule,
                           fragment_entryPoint = ''fs_main'',
                           fragment_targets = [the (gpu_presentationFormat t)],
                           primitive_topology = ''triangle-list'' \<rparr>\<rparr>))"

text \<open>Step 9: the bind group, binding 0 of the layout of group 0 to the uniform buffer.\<close>

definition create_bind_group :: "environment \<Rightarrow> state \<Rightarrow> unit outcome" where
  "create_bind_group env =
     seq (call env getBindGroupLayout id)
       (call env createBindGroup
          (\<lambda>t. t\<lparr>gpu_bindGroup :=
                   Some \<lparr>bg_layout = 0, bg_entries = [(0, the (gpu_uniformBuffer t))]\<rparr>\<rparr>))"

definition try_body :: "environment \<Rightarrow> state \<Rightarrow> unit outcome" where
  "try_body env =
     seq (request_adapter_and_device env)
      (seq (get_canvas_and_context env)
       (seq (configure_context env)
        (seq (create_vertex_buffer env)
         (seq (create_uniform_buffer env)
          (seq (create_pipeline env)
           (seq (create_bind_group env)
             (\<lambda>t. (Inr (), console_add console_log ''WebGPU Initialized Successfully!'' t))))))))"

definition initializeWebGPU :: "environment \<Rightarrow> state \<Rightarrow> bool outcome" where
  "initializeWebGPU env s =
     (let s0 = console_add console_log ''Initializing WebGPU...'' s in
      if \<not> navigator_gpu env then throw ''WebGPU not supported on this browser.'' s0
      else
        (case try_body env s0 of
           (Inr u, s') \<Rightarrow> (Inr True, s')
         | (Inl err, s') \<Rightarrow>
             (Inr False,
              console_add console_error (''WebGPU initialization failed: '' @ snd err) s')))"

subsection \<open>The resize observer\<close>

fun observer_callback :: "real \<Rightarrow> resize_entry list \<Rightarrow> state \<Rightarrow> state" where
  "observer_callback dpr [] s = s"
| "observer_callback dpr (entry # entries) s =
     observer_callback dpr entries
       (if Some (entry_target entry) = map_option canvas_id (gpu_canvas s) then
          (let width = float64 (contentRect_width entry);
               height = float64 (contentRect_height entry) in
           if width > 0 \<and> height > 0 then set_canvas_size dpr width height s else s)
        else s)"

definition on_resize :: "resize_entry list \<Rightarrow> state \<Rightarrow> state" where
  "on_resize entries s =
     (case observer_dpr s of None \<Rightarrow> s | Some dpr \<Rightarrow> observer_callback dpr entries s)"

subsection \<open>render and the game loop\<close>

text \<open>
  \<open>render\<close> reads the clock itself; the reading of \<open>performance.now()\<close>, in
  milliseconds, a double, is the argument \<open>now\<close>.  The two offsets are computed in
  doubles and rounded to single precision by the store into the \<open>Float32Array\<close>.  \<open>context.getCurrentTexture()\<close> throws an
  \<open>InvalidStateError\<close> on a context that is not configured; the calls on the encoders
  only record, and \<open>setBindGroup\<close> takes a bind group or \<open>null\<close>.
\<close>

definition render_guard :: "state \<Rightarrow> bool" where
  "render_guard s \<longleftrightarrow>
     gpu_device s \<noteq> None \<and> gpu_context s \<noteq> None \<and> gpu_renderPipeline s \<noteq> None
     \<and> gpu_canvas s \<noteq> None \<and> gpu_vertexBuffer s \<noteq> None"

definition zero_size :: "state \<Rightarrow> bool" where
  "zero_size s \<longleftrightarrow>
     canvas_width (the (gpu_canvas s)) = 0 \<or> canvas_height (the (gpu_canvas s)) = 0"

definition update_uniforms :: "real \<Rightarrow> state \<Rightarrow> state" where
  "update_uniforms now s =
     (let time = float64 (float64 now / 1000);
          s1 = s\<lparr>data_uniforms :=
                 (data_uniforms s)[0 := float32 (float64 (Math_sin time * float64 0.3))]\<rparr>
      in s1\<lparr>data_uniforms :=
             (data_uniforms s1)[1 := float32 (float64 (Math_cos time * float64 0.3))]\<rparr>)"

text \<open>The two offsets a frame at clock reading \<open>now\<close> stores.\<close>

definition offset_x :: "real \<Rightarrow> real" where
  "offset_x now = float32 (float64 (Math_sin (float64 (float64 now / 1000)) * float64 0.3))"

definition offset_y :: "real \<Rightarrow> real" where
  "offset_y now = float32 (float64 (Math_cos (float64 (float64 now / 1000)) * float64 0.3))"

definition getCurrentTexture_createView :: "state \<Rightarrow> js_error + GPUTextureView" where
  "getCurrentTexture_createView s =
     (case gpu_context s of
        Some (GPUCanvasContext (Some conf)) \<Rightarrow>
          Inr (GPUTextureView (canvas_width (the (gpu_canvas s)))
                 (canvas_height (the (gpu_canvas s))) (conf_format conf))
      | _ \<Rightarrow> Inl (InvalidStateError, ''canvas context is not configured''))"

definition record_and_submit :: "state \<Rightarrow> unit outcome" where
  "record_and_submit s =
     (case getCurrentTexture_createView s of
        Inl e \<Rightarrow> (Inl e, s)
      | Inr textureView \<Rightarrow>
          (let renderPassDescriptor =
                 [\<lparr> att_view = textureView, att_clearValue = GPUColor 0.1 0.1 0.2 1.0,
                     att_loadOp = ''clear'', att_storeOp = ''store'' \<rparr>];
               commandBuffer =
                 RenderPass renderPassDescriptor
                   [setPipeline (the (gpu_renderPipeline s)),
                    setVertexBuffer 0 (gpu_vertexBuffer s),
                    setBindGroup 0 (gpu_bindGroup s),
                    draw 3 1 0 0]
           in (Inr (), s\<lparr>queue_submits := queue_submits s @ [[commandBuffer]]\<rparr>)))"

definition render :: "real \<Rightarrow> state \<Rightarrow> unit outcome" where
  "render now s =
     (if \<not> render_guard s then (Inr (), s)
      else if zero_size s then
        (Inr (), console_add console_warn ''Canvas has zero size, skipping render.'' s)
      else
        (let s1 = update_uniforms now s in
         seq (queue_writeBuffer (gpu_uniformBuffer s1) 0 (data_uniforms s1))
           record_and_submit s1))"

definition runGameLoop :: "real \<Rightarrow> state \<Rightarrow> unit outcome" where
  "runGameLoop now = seq (render now) (\<lambda>t. (Inr (), t\<lparr>raf_requested := True\<rparr>))"

text \<open>The start of the script: initialise, and start the loop on success only.\<close>

definition startup :: "environment \<Rightarrow> real \<Rightarrow> state \<Rightarrow> unit outcome" where
  "startup env now s =
     (case initializeWebGPU env s of
        (Inl e, s') \<Rightarrow> (Inl e, s')
      | (Inr success, s') \<Rightarrow>
          if success then runGameLoop now (console_add console_log ''WebGPU State:'' s')
          else (Inr (),
                console_add console_log ''WebGPU setup failed. See console for errors.'' s'))"

text \<open>
  What the browser does to the page afterwards: an animation frame at clock reading
  \<open>now\<close> runs the registered callback, if there is one; a resize notification runs the
  observer.  An exception in an animation frame leaves the loop unregistered.
\<close>

datatype event = AnimationFrame real | Resize "resize_entry list"

definition handle :: "event \<Rightarrow> state \<Rightarrow> state" where
  "handle ev s =
     (case ev of
        AnimationFrame now \<Rightarrow>
          if raf_requested s then snd (runGameLoop now (s\<lparr>raf_requested := False\<rparr>)) else s
      | Resize entries \<Rightarrow> on_resize entries s)"

fun run :: "event list \<Rightarrow> state \<Rightarrow> state" where
  "run [] s = s"
| "run (ev # evs) s = run evs (handle ev s)"

subsection \<open>How the pipeline feeds the vertex stage\<close>




subsection \<open>Invariants of the running page\<close>

fun is_configured :: "GPUCanvasContext option \<Rightarrow> bool" where
  "is_configured (Some (GPUCanvasContext (Some conf))) = True"
| "is_configured _ = False"

text \<open>
  What a successful initialisation establishes and every later frame and resize keeps:
  all handles are set, the context is configured for the device and the preferred format,
  the pipeline is the one of step 8, the vertex buffer is buffer 0 and holds the triangle,
  written once,
  the uniform buffer is buffer 1 with 16 bytes, and the host array of uniforms has four
  floats of which the last two are zero.
\<close>

definition initialized :: "state \<Rightarrow> bool" where
  "initialized s \<longleftrightarrow>
     gpu_device s \<noteq> None \<and> gpu_canvas s \<noteq> None \<and> gpu_presentationFormat s \<noteq> None
     \<and> gpu_renderPipeline s =
           Some \<lparr> pipeline_layout = ''auto'',
                  vertex_module = GPUShaderModule shaderCode,
                  vertex_entryPoint = ''vs_main'',
                  vertex_buffers = [vertexBufferLayout],
                  fragment_module = GPUShaderModule shaderCode,
                  fragment_entryPoint = ''fs_main'',
                  fragment_targets = [the (gpu_presentationFormat s)],
                  primitive_topology = ''triangle-list'' \<rparr>
     \<and> is_configured (gpu_context s)
     \<and> gpu_context s =
           Some (GPUCanvasContext
             (Some \<lparr>conf_device = the (gpu_device s),
                    conf_format = the (gpu_presentationFormat s),
                    conf_alphaMode = ''premultiplied''\<rparr>))
     \<and> gpu_vertexBuffer s = Some 0 \<and> gpu_uniformBuffer s = Some 1
     \<and> gpu_bindGroup s = Some \<lparr>bg_layout = 0, bg_entries = [(0, 1)]\<rparr>
     \<and> length (device_buffers s) = 2
     \<and> buf_size (device_buffers s ! 1) = 16
     \<and> length (buf_contents (device_buffers s ! 1)) = 4
     \<and> buf_contents (device_buffers s ! 0) = data_vertices initial_state
     \<and> data_vertices s = data_vertices initial_state
     \<and> length (data_uniforms s) = 4 \<and> data_uniforms s ! 2 = 0 \<and> data_uniforms s ! 3 = 0
     \<and> filter (\<lambda>w. fst w = 0) (queue_writes s) = [(0, 0, data_vertices initial_state)]
     \<and> observer_dpr s \<noteq> None"

text \<open>
  What every initialisation establishes, failed ones included: once the pipeline exists,
  the context is configured and the uniform buffer takes the host array.
\<close>

definition uniform_writable :: "state \<Rightarrow> bool" where
  "uniform_writable s \<longleftrightarrow>
     is_configured (gpu_context s) \<and> gpu_uniformBuffer s \<noteq> None
     \<and> the (gpu_uniformBuffer s) < length (device_buffers s)
     \<and> byteLength (data_uniforms s) \<le> buf_size (device_buffers s ! the (gpu_uniformBuffer s))"

definition render_safe :: "state \<Rightarrow> bool" where
  "render_safe s \<longleftrightarrow> gpu_renderPipeline s = None \<or> uniform_writable s"

subsection \<open>Causes of a fatal initialisation failure\<close>

definition no_device :: "environment \<Rightarrow> bool" where
  "no_device env \<longleftrightarrow>
     \<not> navigator_gpu env
     \<or> (case requestAdapter env of Inr (Some a) \<Rightarrow> False | _ \<Rightarrow> True)
     \<or> (case requestDevice env of Inr (Some d) \<Rightarrow> False | _ \<Rightarrow> True)"

definition no_surface :: "environment \<Rightarrow> bool" where
  "no_surface env \<longleftrightarrow>
     game_canvas env = None \<or> \<not> getContext_webgpu env \<or> throws env configure \<noteq> None"

definition shader_creation_throws :: "environment \<Rightarrow> bool" where
  "shader_creation_throws env \<longleftrightarrow>
     throws env createShaderModule \<noteq> None \<or> throws env createRenderPipeline \<noteq> None"

definition shader_compilation_fails :: "environment \<Rightarrow> bool" where
  "shader_compilation_fails env \<longleftrightarrow> \<not> shader_compiles env \<or> shader_creation_throws env"

subsection \<open>Sample pages\<close>

text \<open>
  A page whose canvas is laid out at 640 by 480 CSS pixels on a browser with WebGPU, at
  device pixel ratio 1; the same page with a canvas of size zero; the same page on a
  browser without WebGPU; on a device whose \<open>createShaderModule\<close> throws; on a device
  that does not compile the shader and throws nothing; and at device pixel ratio 1.2.
\<close>

definition sample_environment :: environment where
  "sample_environment =
     \<lparr> navigator_gpu = True, requestAdapter = Inr (Some GPUAdapter),
       requestDevice = Inr (Some GPUDevice), game_canvas = Some (300, 150),
       devicePixelRatio = 1, getBoundingClientRect = (640, 480),
       getContext_webgpu = True, getPreferredCanvasFormat = ''bgra8unorm'',
       shader_compiles = True, throws = (\<lambda>c. None) \<rparr>"


definition no_webgpu_environment :: environment where
  "no_webgpu_environment = sample_environment\<lparr>navigator_gpu := False\<rparr>"

definition broken_shader_environment :: environment where
  "broken_shader_environment =
     sample_environment\<lparr>throws :=
       (\<lambda>c. if c = createShaderModule then Some (Error, ''shader compilation failed'')
            else None)\<rparr>"

definition hidpi_environment :: environment where
  "hidpi_environment = sample_environment\<lparr>devicePixelRatio := 6 / 5\<rparr>"

definition silent_shader_environment :: environment where
  "silent_shader_environment = sample_environment\<lparr>shader_compiles := False\<rparr>"

definition canvas_entry :: "real \<Rightarrow> real \<Rightarrow> resize_entry" where
  "canvas_entry w h =
     \<lparr>entry_target = ''game-canvas'', contentRect_width = w, contentRect_height = h\<rparr>"

section \<open>Lemmas about the model\<close>

subsection \<open>Floating point\<close>

lemma float_round_zero: "float_round p emin 0 = 0"
  by (simp add: float_round_def)

lemma round_half_even_error: "\<bar>of_int (round_half_even q) - q\<bar> \<le> 1 / 2"
  unfolding round_half_even_def Let_def by (auto simp: abs_le_iff)

text \<open>The rounding error is at most half the spacing of the binade.\<close>

lemma float_round_error:
  assumes "\<bar>x\<bar> < 2 powi k" and "emin < k"
  shows "\<bar>float_round p emin x - x\<bar> \<le> 2 powi (k - int p - 1)"
proof (cases "x = 0")
  case True
  then show ?thesis by (simp add: float_round_def)
next
  case False
  define e where "e = max \<lfloor>log 2 \<bar>x\<bar>\<rfloor> emin"
  define ulp :: real where "ulp = 2 powi (e - int p + 1)"
  have pos: "0 < ulp" by (simp add: ulp_def)
  have "log 2 \<bar>x\<bar> < of_int k"
  proof -
    have "\<bar>x\<bar> < 2 powr (of_int k)"
      using assms(1) by (simp add: powr_real_of_int')
    then show ?thesis
      using False by (simp add: log_less_iff)
  qed
  then have "\<lfloor>log 2 \<bar>x\<bar>\<rfloor> < k" by linarith
  with assms(2) have "e \<le> k - 1" by (simp add: e_def)
  then have "ulp \<le> 2 powi (k - int p)"
    unfolding ulp_def by (intro power_int_increasing) simp_all
  also have "\<dots> = 2 * 2 powi (k - int p - 1)"
    by (simp add: power_int_diff)
  finally have u: "ulp / 2 \<le> 2 powi (k - int p - 1)" by simp
  have "float_round p emin x - x = (of_int (round_half_even (x / ulp)) - x / ulp) * ulp"
    using False pos by (simp add: float_round_def e_def ulp_def Let_def field_simps)
  then have "\<bar>float_round p emin x - x\<bar> = \<bar>of_int (round_half_even (x / ulp)) - x / ulp\<bar> * ulp"
    using pos by (simp add: abs_mult)
  also have "\<dots> \<le> 1 / 2 * ulp"
    using round_half_even_error [of "x / ulp"] pos by (intro mult_right_mono) simp_all
  finally show ?thesis using u by simp
qed

text \<open>How to compute a rounding once the binade is known.\<close>

lemma float_round_eval:
  assumes "2 powi e \<le> \<bar>x\<bar>" and "\<bar>x\<bar> < 2 powi (e + 1)" and "emin \<le> e"
  shows "float_round p emin x
           = of_int (round_half_even (x / 2 powi (e - int p + 1))) * 2 powi (e - int p + 1)"
proof -
  have pos: "0 < \<bar>x\<bar>"
  proof -
    have "(0::real) < 2 powi e" by simp
    with assms(1) show ?thesis by linarith
  qed
  have a: "2 powr (of_int e) = (2::real) powi e"
    by (simp add: powr_real_of_int')
  have b: "2 powr (of_int e + 1) = (2::real) powi (e + 1)"
    using powr_real_of_int' [of 2 "e + 1"] by simp
  have "\<lfloor>log 2 \<bar>x\<bar>\<rfloor> = e"
    using assms(1,2) pos by (simp add: floor_log_eq_powr_iff a b)
  with assms(3) pos show ?thesis
    by (simp add: float_round_def Let_def max_def)
qed

lemma float64_values:
  "float64 0 = 0" "float64 1 = 1" "float64 640 = 640" "float64 480 = 480"
  "float64 (3 / 10) = 5404319552844595 / 18014398509481984"
  "float64 (5404319552844595 / 18014398509481984) = 5404319552844595 / 18014398509481984"
proof -
  show "float64 0 = 0"
    by (simp add: float64_def float_round_zero)
  show "float64 1 = 1"
    unfolding float64_def
    by (subst float_round_eval [where e = 0]) (simp_all add: round_half_even_def power_int_minus)
  show "float64 640 = 640"
    unfolding float64_def
    by (subst float_round_eval [where e = 9]) (simp_all add: round_half_even_def power_int_minus)
  show "float64 480 = 480"
    unfolding float64_def
    by (subst float_round_eval [where e = 8]) (simp_all add: round_half_even_def power_int_minus)
  show "float64 (3 / 10) = 5404319552844595 / 18014398509481984"
    unfolding float64_def
    by (subst float_round_eval [where e = "- 2"])
       (simp_all add: round_half_even_def power_int_minus)
  show "float64 (5404319552844595 / 18014398509481984) = 5404319552844595 / 18014398509481984"
    unfolding float64_def
    by (subst float_round_eval [where e = "- 2"])
       (simp_all add: round_half_even_def power_int_minus)
qed

lemma float32_of_double_0_3:
  "float32 0 = 0" "float32 (5404319552844595 / 18014398509481984) = 5033165 / 16777216"
proof -
  show "float32 0 = 0"
    by (simp add: float32_def float_round_zero)
  show "float32 (5404319552844595 / 18014398509481984) = 5033165 / 16777216"
    unfolding float32_def
    by (subst float_round_eval [where e = "- 2"])
       (simp_all add: round_half_even_def power_int_minus)
qed

text \<open>
  A factor \<open>v\<close> between -1 and 1, rounded to a double, times the double 0.3, rounded to a
  double and then to single precision, is within \<open>2 ^ - 25\<close> of \<open>0.3 * v\<close>.
\<close>

lemma scaled_by_0_3:
  assumes "\<bar>v\<bar> \<le> 1"
  shows "\<bar>float32 (float64 (float64 v * float64 0.3)) - 0.3 * v\<bar> \<le> 2 powi (- 25)"
proof -
  define a where "a = float64 v"
  define d where "d = (5404319552844595 / 18014398509481984 :: real)"
  define q where "q = float64 (a * d)"
  have d03: "float64 0.3 = d"
    using float64_values(5) by (simp add: d_def)
  have dv: "\<bar>d - 0.3\<bar> \<le> 2 powi (- 56)" "0 \<le> d" "d \<le> 0.3"
    by (simp_all add: d_def power_int_minus)
  have "\<bar>v\<bar> < 2 powi 1" using assms by simp
  from float_round_error [OF this, of "- 1022" 53]
  have a: "\<bar>a - v\<bar> \<le> 2 powi (- 53)"
    by (simp add: a_def float64_def)
  have "a * d - 0.3 * v = (a - v) * d + v * (d - 0.3)"
    by (simp add: algebra_simps)
  also have "\<bar>\<dots>\<bar> \<le> \<bar>(a - v) * d\<bar> + \<bar>v * (d - 0.3)\<bar>"
    by (rule abs_triangle_ineq)
  also have "\<dots> \<le> 2 powi (- 53) * 0.3 + 1 * 2 powi (- 56)"
    unfolding abs_mult using a dv assms
    by (intro add_mono mult_mono) simp_all
  finally have p: "\<bar>a * d - 0.3 * v\<bar> \<le> 2 powi (- 53) * 0.3 + 2 powi (- 56)"
    by simp
  have v3: "\<bar>0.3 * v\<bar> \<le> 0.3"
    using assms by (simp add: abs_mult)
  have "\<bar>a * d\<bar> \<le> \<bar>a * d - 0.3 * v\<bar> + \<bar>0.3 * v\<bar>"
    by simp
  with p v3 have "\<bar>a * d\<bar> < 2 powi (- 1)"
    by (simp add: power_int_minus)
  from float_round_error [OF this, of "- 1022" 53]
  have q: "\<bar>q - a * d\<bar> \<le> 2 powi (- 55)"
    by (simp add: q_def float64_def)
  have "\<bar>q\<bar> \<le> \<bar>q - a * d\<bar> + \<bar>a * d - 0.3 * v\<bar> + \<bar>0.3 * v\<bar>"
    by simp
  with q p v3 have "\<bar>q\<bar> < 2 powi (- 1)"
    by (simp add: power_int_minus)
  from float_round_error [OF this, of "- 126" 24]
  have f: "\<bar>float32 q - q\<bar> \<le> 2 powi (- 26)"
    by (simp add: float32_def)
  have "\<bar>float32 q - 0.3 * v\<bar>
      \<le> \<bar>float32 q - q\<bar> + \<bar>q - a * d\<bar> + \<bar>a * d - 0.3 * v\<bar>"
    by simp
  with f q p have "\<bar>float32 q - 0.3 * v\<bar> \<le> 2 powi (- 25)"
    by (simp add: power_int_minus)
  then show ?thesis
    by (simp add: q_def a_def d03)
qed

lemma offset_error:
  "\<bar>offset_x now - 0.3 * sin (float64 (float64 now / 1000))\<bar> \<le> 2 powi (- 25)"
  "\<bar>offset_y now - 0.3 * cos (float64 (float64 now / 1000))\<bar> \<le> 2 powi (- 25)"
  using scaled_by_0_3 [of "sin (float64 (float64 now / 1000))"]
    scaled_by_0_3 [of "cos (float64 (float64 now / 1000))"]
  by (simp_all add: offset_x_def offset_y_def Math_sin_def Math_cos_def)

lemma offset_magnitude:
  "sqrt ((offset_x now)\<^sup>2 + (offset_y now)\<^sup>2) \<le> 0.3 + 2 powi (- 24)"
proof -
  define t where "t = float64 (float64 now / 1000)"
  define dx where "dx = offset_x now - 0.3 * sin t"
  define dy where "dy = offset_y now - 0.3 * cos t"
  have e: "\<bar>dx\<bar> \<le> 2 powi (- 25)" "\<bar>dy\<bar> \<le> 2 powi (- 25)"
    using offset_error [of now] by (simp_all add: dx_def dy_def t_def)
  have "(0.3 * sin t)\<^sup>2 + (0.3 * cos t)\<^sup>2 = (0.3)\<^sup>2 * ((sin t)\<^sup>2 + (cos t)\<^sup>2)"
    by (simp only: power_mult_distrib distrib_left)
  also have "\<dots> = (0.3::real)\<^sup>2"
    by simp
  finally have c: "sqrt ((0.3 * sin t)\<^sup>2 + (0.3 * cos t)\<^sup>2) = 0.3"
    by (simp del: sin_cos_squared_add)
  have "sqrt ((offset_x now)\<^sup>2 + (offset_y now)\<^sup>2)
      = sqrt ((0.3 * sin t + dx)\<^sup>2 + (0.3 * cos t + dy)\<^sup>2)"
    by (simp add: dx_def dy_def)
  also have "\<dots> \<le> sqrt ((0.3 * sin t)\<^sup>2 + (0.3 * cos t)\<^sup>2) + sqrt (dx\<^sup>2 + dy\<^sup>2)"
    by (rule real_sqrt_sum_squares_triangle_ineq)
  also have "\<dots> \<le> 0.3 + (\<bar>dx\<bar> + \<bar>dy\<bar>)"
    unfolding c using sqrt_sum_squares_le_sum_abs [of dx dy] by simp
  also have "\<dots> \<le> 0.3 + 2 powi (- 24)"
    using e by (simp add: power_int_minus)
  finally show ?thesis .
qed

lemma offset_at_zero:
  "offset_x 0 = 0" "offset_y 0 = 5033165 / 16777216"
  by (simp_all add: offset_x_def offset_y_def Math_sin_def Math_cos_def float64_values
        float32_of_double_0_3)

subsection \<open>Sequencing\<close>

lemma seq_Inr:
  "seq f g s = (Inr u, s') \<longleftrightarrow> (\<exists>s1. f s = (Inr (), s1) \<and> g s1 = (Inr u, s'))"
  by (auto simp: seq_def split: prod.splits sum.splits)

lemma seq_Inl:
  "seq f g s = (Inl e, s') \<longleftrightarrow>
     f s = (Inl e, s') \<or> (\<exists>s1. f s = (Inr (), s1) \<and> g s1 = (Inl e, s'))"
  by (auto simp: seq_def split: prod.splits sum.splits)

lemma snd_seq:
  "snd (seq f g s) = (case fst (f s) of Inl e \<Rightarrow> snd (f s) | Inr u \<Rightarrow> snd (g (snd (f s))))"
  by (simp add: seq_def split: prod.splits sum.splits)

lemma call_Inr:
  "call env c f s = (Inr u, s') \<longleftrightarrow> throws env c = None \<and> s' = f s"
  by (auto simp: call_def split: option.splits)

lemma call_Inl:
  "call env c f s = (Inl e, s') \<longleftrightarrow> throws env c = Some e \<and> s' = s"
  by (auto simp: call_def split: option.splits)

subsection \<open>The steps of the initialisation, when they succeed\<close>

lemma request_adapter_and_device_Inr:
  assumes "request_adapter_and_device env s = (Inr u, s')"
  shows "\<exists>a d. requestAdapter env = Inr (Some a) \<and> requestDevice env = Inr (Some d)
               \<and> s' = s\<lparr>gpu_adapter := Some a, gpu_device := Some d\<rparr>"
  using assms
  by (auto simp: request_adapter_and_device_def throw_def Let_def split: sum.splits if_splits)

lemma get_canvas_and_context_Inr:
  assumes "get_canvas_and_context env s = (Inr u, s')"
  shows "game_canvas env \<noteq> None \<and> getContext_webgpu env
         \<and> gpu_canvas s' \<noteq> None \<and> observer_dpr s' \<noteq> None
         \<and> map_option canvas_id (gpu_canvas s') = Some ''game-canvas''
         \<and> observer_dpr s'
             = Some (if float64 (devicePixelRatio env) = 0 then 1
                     else float64 (devicePixelRatio env))
         \<and> s' = s\<lparr>gpu_canvas := gpu_canvas s', observer_dpr := observer_dpr s',
                     gpu_context := Some (GPUCanvasContext None)\<rparr>"
  using assms
  by (auto simp: get_canvas_and_context_def set_canvas_size_def throw_def Let_def
           split: if_splits prod.splits option.splits)

lemma configure_context_Inr:
  assumes "configure_context env s = (Inr u, s')"
  shows "throws env configure = None
         \<and> s' = s\<lparr>gpu_presentationFormat := Some (getPreferredCanvasFormat env),
                     gpu_context :=
                       Some (GPUCanvasContext
                         (Some \<lparr>conf_device = the (gpu_device s),
                                conf_format = getPreferredCanvasFormat env,
                                conf_alphaMode = ''premultiplied''\<rparr>))\<rparr>"
  using assms
  by (auto simp: configure_context_def call_def Let_def split: option.splits)

lemma create_vertex_buffer_Inr:
  assumes "create_vertex_buffer env s = (Inr u, s')"
  shows "s' = s\<lparr>device_buffers := device_buffers s @
                   [\<lparr>buf_size = byteLength (data_vertices s), buf_usage = [VERTEX, COPY_DST],
                     buf_contents = data_vertices s\<rparr>],
                gpu_vertexBuffer := Some (length (device_buffers s)),
                queue_writes := queue_writes s @ [(length (device_buffers s), 0, data_vertices s)]\<rparr>"
  using assms
  by (auto simp: create_vertex_buffer_def seq_Inr call_Inr device_createBuffer_def
        queue_writeBuffer_def byteLength_def Let_def split: if_splits)

lemma create_uniform_buffer_Inr:
  assumes "create_uniform_buffer env s = (Inr u, s')" and "length (data_uniforms s) = 4"
  shows "s' = s\<lparr>device_buffers := device_buffers s @
                   [\<lparr>buf_size = 16, buf_usage = [UNIFORM, COPY_DST],
                     buf_contents = data_uniforms s\<rparr>],
                gpu_uniformBuffer := Some (length (device_buffers s)),
                queue_writes := queue_writes s @ [(length (device_buffers s), 0, data_uniforms s)]\<rparr>"
  using assms
  by (auto simp: create_uniform_buffer_def seq_Inr call_Inr device_createBuffer_def
        queue_writeBuffer_def byteLength_def SIZEOF_UNIFORMS_def initial_state_def Let_def
        split: if_splits)

lemma create_pipeline_Inr:
  assumes "create_pipeline env s = (Inr u, s')"
  shows "throws env createShaderModule = None \<and> throws env createRenderPipeline = None
         \<and> s' = s\<lparr>device_errors :=
                       device_errors s @
                         (if shader_compiles env then [] else [''shader compilation failed'']),
                     gpu_renderPipeline :=
                 Some \<lparr> pipeline_layout = ''auto'',
                        vertex_module = GPUShaderModule shaderCode,
                        vertex_entryPoint = ''vs_main'',
                        vertex_buffers = [vertexBufferLayout],
                        fragment_module = GPUShaderModule shaderCode,
                        fragment_entryPoint = ''fs_main'',
                        fragment_targets = [the (gpu_presentationFormat s)],
                        primitive_topology = ''triangle-list'' \<rparr>\<rparr>"
  using assms
  by (auto simp: create_pipeline_def seq_Inr call_Inr Let_def)

lemma create_bind_group_Inr:
  assumes "create_bind_group env s = (Inr u, s')"
  shows "s' = s\<lparr>gpu_bindGroup :=
                 Some \<lparr>bg_layout = 0, bg_entries = [(0, the (gpu_uniformBuffer s))]\<rparr>\<rparr>"
  using assms
  by (auto simp: create_bind_group_def seq_Inr call_Inr)

lemma create_bind_group_Inl:
  assumes "create_bind_group env s = (Inl e, s')"
  shows "s' = s"
  using assms
  by (auto simp: create_bind_group_def seq_Inl call_Inr call_Inl)

lemma try_body_Inr:
  assumes "try_body env s = (Inr u, s')"
    and "device_buffers s = []" and "queue_writes s = []"
    and "data_vertices s = data_vertices initial_state"
    and "data_uniforms s = data_uniforms initial_state"
  shows "initialized s'"
proof -
  from assms(1) obtain s1 s2 s3 s4 s5 s6 s7 where
    1: "request_adapter_and_device env s = (Inr (), s1)" and
    2: "get_canvas_and_context env s1 = (Inr (), s2)" and
    3: "configure_context env s2 = (Inr (), s3)" and
    4: "create_vertex_buffer env s3 = (Inr (), s4)" and
    5: "create_uniform_buffer env s4 = (Inr (), s5)" and
    6: "create_pipeline env s5 = (Inr (), s6)" and
    7: "create_bind_group env s6 = (Inr (), s7)" and
    8: "s' = console_add console_log ''WebGPU Initialized Successfully!'' s7"
    unfolding try_body_def seq_Inr by auto
  note a = request_adapter_and_device_Inr [OF 1] get_canvas_and_context_Inr [OF 2]
    configure_context_Inr [OF 3]
  have len: "length (data_uniforms s4) = 4"
    using a create_vertex_buffer_Inr [OF 4] assms(5)
    by (clarsimp simp: initial_state_def)
  note b = create_vertex_buffer_Inr [OF 4] create_uniform_buffer_Inr [OF 5 len]
    create_pipeline_Inr [OF 6] create_bind_group_Inr [OF 7]
  show ?thesis
    using a b 8 assms(2-5)
    by (clarsimp simp: initialized_def console_add_def initial_state_def byteLength_def)
qed

lemma try_body_Inr_env:
  assumes "try_body env s = (Inr u, s')"
  shows "\<not> no_surface env \<and> \<not> shader_creation_throws env
         \<and> (\<exists>a d. requestAdapter env = Inr (Some a) \<and> requestDevice env = Inr (Some d))"
proof -
  from assms(1) obtain s1 s2 s3 s4 s5 s6 where
    1: "request_adapter_and_device env s = (Inr (), s1)" and
    2: "get_canvas_and_context env s1 = (Inr (), s2)" and
    3: "configure_context env s2 = (Inr (), s3)" and
    4: "create_vertex_buffer env s3 = (Inr (), s4)" and
    5: "create_uniform_buffer env s4 = (Inr (), s5)" and
    6: "create_pipeline env s5 = (Inr (), s6)"
    unfolding try_body_def seq_Inr by auto
  show ?thesis
    using request_adapter_and_device_Inr [OF 1] get_canvas_and_context_Inr [OF 2]
      configure_context_Inr [OF 3] create_pipeline_Inr [OF 6]
    by (auto simp: no_surface_def shader_creation_throws_def)
qed

lemma initializeWebGPU_True:
  assumes "fst (initializeWebGPU env initial_state) = Inr True"
  shows "initialized (snd (initializeWebGPU env initial_state))"
    and "navigator_gpu env" and "\<not> no_device env" and "\<not> no_surface env"
    and "\<not> shader_creation_throws env"
proof -
  define s0 where "s0 = console_add console_log ''Initializing WebGPU...'' initial_state"
  from assms show nav: "navigator_gpu env"
    by (auto simp: initializeWebGPU_def throw_def Let_def split: if_splits)
  obtain r s' where t: "try_body env s0 = (r, s')"
    by (cases "try_body env s0")
  from assms nav t have r: "r = Inr ()"
    by (cases r) (auto simp: initializeWebGPU_def Let_def s0_def)
  have s': "snd (initializeWebGPU env initial_state) = s'"
    using nav t r by (simp add: initializeWebGPU_def Let_def s0_def)
  have "initialized s'"
    using t unfolding r
    by (rule try_body_Inr) (simp_all add: s0_def console_add_def initial_state_def)
  then show "initialized (snd (initializeWebGPU env initial_state))"
    by (simp add: s')
  from try_body_Inr_env [OF t [unfolded r]] nav
  show "\<not> no_device env" and "\<not> no_surface env" and "\<not> shader_creation_throws env"
    by (auto simp: no_device_def)
qed

subsection \<open>What the initialisation never touches\<close>

lemma queue_writeBuffer_frame:
  "queue_submits (snd (queue_writeBuffer b off xs s)) = queue_submits s"
  "raf_requested (snd (queue_writeBuffer b off xs s)) = raf_requested s"
  "gpu_renderPipeline (snd (queue_writeBuffer b off xs s)) = gpu_renderPipeline s"
  by (simp_all add: queue_writeBuffer_def Let_def split: option.splits)

lemma request_adapter_and_device_frame:
  "queue_submits (snd (request_adapter_and_device env s)) = queue_submits s"
  "raf_requested (snd (request_adapter_and_device env s)) = raf_requested s"
  "gpu_renderPipeline (snd (request_adapter_and_device env s)) = gpu_renderPipeline s"
  by (simp_all add: request_adapter_and_device_def throw_def Let_def split: sum.splits)

lemma get_canvas_and_context_frame:
  "queue_submits (snd (get_canvas_and_context env s)) = queue_submits s"
  "raf_requested (snd (get_canvas_and_context env s)) = raf_requested s"
  "gpu_renderPipeline (snd (get_canvas_and_context env s)) = gpu_renderPipeline s"
  by (simp_all add: get_canvas_and_context_def set_canvas_size_def throw_def Let_def
        split: prod.splits option.splits)

lemma configure_context_frame:
  "queue_submits (snd (configure_context env s)) = queue_submits s"
  "raf_requested (snd (configure_context env s)) = raf_requested s"
  "gpu_renderPipeline (snd (configure_context env s)) = gpu_renderPipeline s"
  by (simp_all add: configure_context_def call_def Let_def split: option.splits)

lemma create_vertex_buffer_frame:
  "queue_submits (snd (create_vertex_buffer env s)) = queue_submits s"
  "raf_requested (snd (create_vertex_buffer env s)) = raf_requested s"
  "gpu_renderPipeline (snd (create_vertex_buffer env s)) = gpu_renderPipeline s"
  by (simp_all add: create_vertex_buffer_def snd_seq call_def device_createBuffer_def
        queue_writeBuffer_frame Let_def split: option.splits sum.splits)

lemma create_uniform_buffer_frame:
  "queue_submits (snd (create_uniform_buffer env s)) = queue_submits s"
  "raf_requested (snd (create_uniform_buffer env s)) = raf_requested s"
  "gpu_renderPipeline (snd (create_uniform_buffer env s)) = gpu_renderPipeline s"
  by (simp_all add: create_uniform_buffer_def snd_seq call_def device_createBuffer_def
        queue_writeBuffer_frame Let_def split: option.splits sum.splits)

lemma create_pipeline_frame:
  "queue_submits (snd (create_pipeline env s)) = queue_submits s"
  "raf_requested (snd (create_pipeline env s)) = raf_requested s"
  by (simp_all add: create_pipeline_def snd_seq call_def Let_def split: option.splits sum.splits)

lemma create_bind_group_frame:
  "queue_submits (snd (create_bind_group env s)) = queue_submits s"
  "raf_requested (snd (create_bind_group env s)) = raf_requested s"
  "gpu_renderPipeline (snd (create_bind_group env s)) = gpu_renderPipeline s"
  by (simp_all add: create_bind_group_def snd_seq call_def split: option.splits sum.splits)

lemmas step_frames = request_adapter_and_device_frame get_canvas_and_context_frame
  configure_context_frame create_vertex_buffer_frame create_uniform_buffer_frame
  create_pipeline_frame create_bind_group_frame

lemma try_body_frame:
  "queue_submits (snd (try_body env s)) = queue_submits s"
  "raf_requested (snd (try_body env s)) = raf_requested s"
  by (simp_all add: try_body_def snd_seq step_frames console_add_def split: sum.splits)

lemma initializeWebGPU_frame:
  "queue_submits (snd (initializeWebGPU env s)) = queue_submits s"
  "raf_requested (snd (initializeWebGPU env s)) = raf_requested s"
proof -
  define s0 where "s0 = console_add console_log ''Initializing WebGPU...'' s"
  have "queue_submits s0 = queue_submits s" "raf_requested s0 = raf_requested s"
    by (simp_all add: s0_def console_add_def)
  with try_body_frame [of env s0]
  show "queue_submits (snd (initializeWebGPU env s)) = queue_submits s"
    "raf_requested (snd (initializeWebGPU env s)) = raf_requested s"
    by (auto simp: initializeWebGPU_def Let_def throw_def console_add_def s0_def
          split: prod.splits sum.splits)
qed

lemma seq_assoc: "seq (seq f g) h = seq f (seq g h)"
  by (rule ext) (simp add: seq_def split: prod.splits sum.splits)

text \<open>The five steps before the pipeline, taken together.\<close>

lemma before_pipeline:
  fixes env
  defines "prefix \<equiv> seq (request_adapter_and_device env) (seq (get_canvas_and_context env)
             (seq (configure_context env) (seq (create_vertex_buffer env)
               (create_uniform_buffer env))))"
  shows "gpu_renderPipeline (snd (prefix s)) = gpu_renderPipeline s"
    and "prefix s = (Inr u, s') \<Longrightarrow> length (data_uniforms s) = 4 \<Longrightarrow> uniform_writable s'"
    and "prefix s = (Inr u, s') \<Longrightarrow>
           \<not> no_surface env
           \<and> (\<exists>a d. requestAdapter env = Inr (Some a) \<and> requestDevice env = Inr (Some d))"
proof -
  show "gpu_renderPipeline (snd (prefix s)) = gpu_renderPipeline s"
    by (simp add: prefix_def snd_seq step_frames split: sum.splits)
next
  assume ok: "prefix s = (Inr u, s')"
  then obtain s1 s2 s3 s4 where
    1: "request_adapter_and_device env s = (Inr (), s1)" and
    2: "get_canvas_and_context env s1 = (Inr (), s2)" and
    3: "configure_context env s2 = (Inr (), s3)" and
    4: "create_vertex_buffer env s3 = (Inr (), s4)" and
    5: "create_uniform_buffer env s4 = (Inr u, s')"
    unfolding prefix_def seq_Inr by auto
  note a = request_adapter_and_device_Inr [OF 1] get_canvas_and_context_Inr [OF 2]
    configure_context_Inr [OF 3]
  from a show "\<not> no_surface env
      \<and> (\<exists>a d. requestAdapter env = Inr (Some a) \<and> requestDevice env = Inr (Some d))"
    by (auto simp: no_surface_def)
  assume "length (data_uniforms s) = 4"
  then have len: "length (data_uniforms s4) = 4"
    using a create_vertex_buffer_Inr [OF 4] by clarsimp
  show "uniform_writable s'"
    using a create_vertex_buffer_Inr [OF 4] create_uniform_buffer_Inr [OF 5 len] len
    by (clarsimp simp: uniform_writable_def byteLength_def nth_append)
qed

lemma uniform_writable_cong:
  assumes "uniform_writable s"
    and "gpu_context s' = gpu_context s" and "gpu_uniformBuffer s' = gpu_uniformBuffer s"
    and "device_buffers s' = device_buffers s" and "data_uniforms s' = data_uniforms s"
  shows "uniform_writable s'"
  using assms by (simp add: uniform_writable_def)

text \<open>The pipeline, the bind group and the success message.\<close>

lemma from_pipeline:
  fixes env
  defines "rest \<equiv> seq (create_pipeline env) (seq (create_bind_group env)
             (\<lambda>t. (Inr (), console_add console_log ''WebGPU Initialized Successfully!'' t)))"
  assumes "rest s = (r, s')"
  shows "uniform_writable s \<Longrightarrow> uniform_writable s'"
    and "shader_creation_throws env \<Longrightarrow>
           (\<exists>e. r = Inl e) \<and> gpu_renderPipeline s' = gpu_renderPipeline s"
    and "r = Inr u \<Longrightarrow> \<not> shader_creation_throws env"
proof -
  have cases: "((\<exists>e. r = Inl e) \<and> gpu_renderPipeline s' = gpu_renderPipeline s
                 \<and> shader_creation_throws env
               \<or> \<not> shader_creation_throws env)
     \<and> gpu_context s' = gpu_context s \<and> gpu_uniformBuffer s' = gpu_uniformBuffer s
     \<and> device_buffers s' = device_buffers s \<and> data_uniforms s' = data_uniforms s"
  proof (cases r)
    case (Inl e)
    with assms(2) consider
        "create_pipeline env s = (Inl e, s')"
      | s6 where "create_pipeline env s = (Inr (), s6)" "create_bind_group env s6 = (Inl e, s')"
      by (auto simp: rest_def seq_Inl)
    then show ?thesis
    proof cases
      case 1
      then have "shader_creation_throws env \<and> gpu_renderPipeline s' = gpu_renderPipeline s
          \<and> gpu_context s' = gpu_context s \<and> gpu_uniformBuffer s' = gpu_uniformBuffer s
          \<and> device_buffers s' = device_buffers s \<and> data_uniforms s' = data_uniforms s"
        by (auto simp: create_pipeline_def seq_Inl call_Inl call_Inr
              shader_creation_throws_def)
      with Inl show ?thesis by simp
    next
      case 2
      from create_pipeline_Inr [OF 2(1)] create_bind_group_Inl [OF 2(2)]
      show ?thesis
        by (auto simp: shader_creation_throws_def)
    qed
  next
    case (Inr v)
    with assms(2) obtain s6 s7 where
      6: "create_pipeline env s = (Inr (), s6)" and
      7: "create_bind_group env s6 = (Inr (), s7)" and
      8: "s' = console_add console_log ''WebGPU Initialized Successfully!'' s7"
      by (auto simp: rest_def seq_Inr)
    from create_pipeline_Inr [OF 6] create_bind_group_Inr [OF 7] 8
    show ?thesis by (auto simp: shader_creation_throws_def console_add_def)
  qed
  from cases show "uniform_writable s \<Longrightarrow> uniform_writable s'"
    by (auto intro: uniform_writable_cong)
  from cases show "shader_creation_throws env \<Longrightarrow>
      (\<exists>e. r = Inl e) \<and> gpu_renderPipeline s' = gpu_renderPipeline s"
    by auto
  from cases show "r = Inr u \<Longrightarrow> \<not> shader_creation_throws env"
    by auto
qed

lemma try_body_split:
  "try_body env =
     seq (seq (request_adapter_and_device env) (seq (get_canvas_and_context env)
            (seq (configure_context env) (seq (create_vertex_buffer env)
              (create_uniform_buffer env)))))
         (seq (create_pipeline env) (seq (create_bind_group env)
            (\<lambda>t. (Inr (), console_add console_log ''WebGPU Initialized Successfully!'' t))))"
  by (simp add: try_body_def seq_assoc)

lemma try_body_outcome:
  assumes "try_body env s = (r, s')"
    and "gpu_renderPipeline s = None" and "length (data_uniforms s) = 4"
  shows "render_safe s'"
    and "no_device env \<or> no_surface env \<or> shader_creation_throws env \<Longrightarrow> navigator_gpu env \<Longrightarrow>
           (\<exists>e. r = Inl e) \<and> gpu_renderPipeline s' = None"
proof -
  let ?prefix = "seq (request_adapter_and_device env) (seq (get_canvas_and_context env)
            (seq (configure_context env) (seq (create_vertex_buffer env)
              (create_uniform_buffer env))))"
  let ?rest = "seq (create_pipeline env) (seq (create_bind_group env)
            (\<lambda>t. (Inr (), console_add console_log ''WebGPU Initialized Successfully!'' t)))"
  have split: "seq ?prefix ?rest s = (r, s')"
    using assms(1) by (simp add: try_body_split)
  obtain r5 s5 where p: "?prefix s = (r5, s5)"
    by (cases "?prefix s")
  have none5: "gpu_renderPipeline s5 = None"
    using before_pipeline(1) [of env s] p assms(2) by simp
  show "render_safe s'"
  proof (cases r5)
    case (Inl e)
    with split p have "s' = s5" by (simp add: seq_def)
    with none5 show ?thesis by (simp add: render_safe_def)
  next
    case (Inr v)
    with split p have rest: "?rest s5 = (r, s')" by (simp add: seq_def)
    from p Inr have "uniform_writable s5"
      using before_pipeline(2) [of env s v s5] assms(3) by simp
    with from_pipeline(1) [OF rest] show ?thesis by (simp add: render_safe_def)
  qed
  assume fatal: "no_device env \<or> no_surface env \<or> shader_creation_throws env"
    and nav: "navigator_gpu env"
  show "(\<exists>e. r = Inl e) \<and> gpu_renderPipeline s' = None"
  proof (cases r5)
    case (Inl e)
    with split p have "s' = s5" "r = Inl e" by (simp_all add: seq_def)
    with none5 show ?thesis by simp
  next
    case (Inr v)
    with split p have rest: "?rest s5 = (r, s')" by (simp add: seq_def)
    from p Inr before_pipeline(3) [of env s v s5] nav
    have "\<not> no_surface env" "\<not> no_device env"
      by (auto simp: no_device_def)
    with fatal have "shader_creation_throws env" by simp
    with from_pipeline(2) [OF rest] none5 show ?thesis by simp
  qed
qed

subsection \<open>render\<close>

lemmas render_defs = render_def seq_def queue_writeBuffer_def record_and_submit_def
  update_uniforms_def console_add_def getCurrentTexture_createView_def

lemma render_frame:
  "gpu_device (snd (render now s)) = gpu_device s"
  "gpu_canvas (snd (render now s)) = gpu_canvas s"
  "gpu_context (snd (render now s)) = gpu_context s"
  "gpu_presentationFormat (snd (render now s)) = gpu_presentationFormat s"
  "gpu_renderPipeline (snd (render now s)) = gpu_renderPipeline s"
  "gpu_vertexBuffer (snd (render now s)) = gpu_vertexBuffer s"
  "gpu_uniformBuffer (snd (render now s)) = gpu_uniformBuffer s"
  "gpu_bindGroup (snd (render now s)) = gpu_bindGroup s"
  "data_vertices (snd (render now s)) = data_vertices s"
  "observer_dpr (snd (render now s)) = observer_dpr s"
  "raf_requested (snd (render now s)) = raf_requested s"
  by (simp_all add: render_defs Let_def split: option.splits sum.splits GPUCanvasContext.splits)

lemma render_not_ready:
  assumes "\<not> render_guard s"
  shows "render now s = (Inr (), s)"
  using assms by (simp add: render_def)

lemma render_skip:
  assumes "render_guard s" and "zero_size s"
  shows "render now s =
           (Inr (), console_add console_warn ''Canvas has zero size, skipping render.'' s)"
  using assms by (simp add: render_def)

lemma list4:
  assumes "length (u :: real list) = 4"
  shows "u[0 := a, 1 := b] = [a, b, u ! 2, u ! 3]"
proof -
  from assms obtain p q r t where "u = [p, q, r, t]"
    by (auto simp: length_Suc_conv numeral_eq_Suc)
  then show ?thesis by simp
qed

lemma data_uniforms_update:
  assumes "length (data_uniforms s) = 4"
  shows "data_uniforms (update_uniforms now s) =
           [offset_x now, offset_y now, data_uniforms s ! 2, data_uniforms s ! 3]"
  using list4 [OF assms] by (simp add: update_uniforms_def Let_def offset_x_def offset_y_def)

lemma is_configured_iff:
  "is_configured c \<longleftrightarrow> (\<exists>conf. c = Some (GPUCanvasContext (Some conf)))"
  by (cases c rule: is_configured.cases) simp_all

lemma initialized_guard:
  assumes "initialized s"
  shows "render_guard s"
  using assms by (auto simp: initialized_def render_guard_def is_configured_iff)

lemma render_effect:
  assumes "initialized s" and "\<not> zero_size s"
    and "gpu_context s = Some (GPUCanvasContext (Some conf))"
    and "U = [offset_x now, offset_y now, 0, 0]"
  shows "render now s =
     (Inr (),
      s\<lparr>data_uniforms := U,
        device_buffers := (device_buffers s)[1 := (device_buffers s ! 1)\<lparr>buf_contents := U\<rparr>],
        queue_writes := queue_writes s @ [(1, 0, U)],
        queue_submits := queue_submits s @
          [[RenderPass
              [\<lparr> att_view = GPUTextureView (canvas_width (the (gpu_canvas s)))
                                (canvas_height (the (gpu_canvas s))) (conf_format conf),
                  att_clearValue = GPUColor 0.1 0.1 0.2 1.0,
                  att_loadOp = ''clear'', att_storeOp = ''store'' \<rparr>]
              [setPipeline (the (gpu_renderPipeline s)), setVertexBuffer 0 (Some 0),
               setBindGroup 0 (Some \<lparr>bg_layout = 0, bg_entries = [(0, 1)]\<rparr>),
               draw 3 1 0 0]]]\<rparr>)"
proof -
  have u: "data_uniforms (update_uniforms now s) = U"
    using assms(1,4) data_uniforms_update [of s now] by (simp add: initialized_def)
  have rest: "update_uniforms now s = s\<lparr>data_uniforms := U\<rparr>"
    using u by (simp add: update_uniforms_def Let_def)
  show ?thesis
    using assms initialized_guard [OF assms(1)]
    by (simp add: render_def rest seq_def queue_writeBuffer_def record_and_submit_def
          getCurrentTexture_createView_def byteLength_def initialized_def)
qed

lemma initialized_render:
  assumes "initialized s"
  shows "fst (render now s) = Inr ()" and "initialized (snd (render now s))"
proof -
  from assms obtain conf where c: "gpu_context s = Some (GPUCanvasContext (Some conf))"
    by (auto simp: initialized_def is_configured_iff)
  have "fst (render now s) = Inr () \<and> initialized (snd (render now s))"
  proof (cases "zero_size s")
    case True
    with assms initialized_guard [OF assms] show ?thesis
      by (simp add: render_skip console_add_def initialized_def)
  next
    case False
    from render_effect [OF assms False c refl, of now] assms show ?thesis
      by (simp add: initialized_def)
  qed
  then show "fst (render now s) = Inr ()" and "initialized (snd (render now s))"
    by simp_all
qed

lemma render_safe_render:
  assumes "render_safe s"
  shows "fst (render now s) = Inr ()" and "render_safe (snd (render now s))"
proof -
  have "fst (render now s) = Inr () \<and> render_safe (snd (render now s))"
  proof (cases "gpu_renderPipeline s = None")
    case True
    then have "\<not> render_guard s" by (simp add: render_guard_def)
    with True show ?thesis by (simp add: render_not_ready render_safe_def)
  next
    case False
    with assms have w: "uniform_writable s" by (simp add: render_safe_def)
    then obtain conf b where c: "gpu_context s = Some (GPUCanvasContext (Some conf))"
      and b: "gpu_uniformBuffer s = Some b" "b < length (device_buffers s)"
        "byteLength (data_uniforms s) \<le> buf_size (device_buffers s ! b)"
      by (auto simp: uniform_writable_def is_configured_iff)
    show ?thesis
      using c b
      by (simp add: render_defs Let_def render_safe_def uniform_writable_def byteLength_def)
  qed
  then show "fst (render now s) = Inr ()" and "render_safe (snd (render now s))"
    by simp_all
qed

subsection \<open>The resize observer\<close>

lemma set_canvas_size_canvas:
  "set_canvas_size dpr w h s = s\<lparr>gpu_canvas := gpu_canvas (set_canvas_size dpr w h s)\<rparr>"
  "gpu_canvas (set_canvas_size dpr w h s) = None \<longleftrightarrow> gpu_canvas s = None"
  "map_option canvas_id (gpu_canvas (set_canvas_size dpr w h s)) = map_option canvas_id (gpu_canvas s)"
  by (simp_all add: set_canvas_size_def split: option.splits)

lemma observer_callback_canvas:
  "observer_callback dpr entries s = s\<lparr>gpu_canvas := gpu_canvas (observer_callback dpr entries s)\<rparr>
   \<and> (gpu_canvas (observer_callback dpr entries s) = None \<longleftrightarrow> gpu_canvas s = None)
   \<and> map_option canvas_id (gpu_canvas (observer_callback dpr entries s))
       = map_option canvas_id (gpu_canvas s)"
proof (induction entries arbitrary: s)
  case Nil
  show ?case by simp
next
  case (Cons entry entries)
  let ?w = "float64 (contentRect_width entry)" and ?h = "float64 (contentRect_height entry)"
  let ?t = "if Some (entry_target entry) = map_option canvas_id (gpu_canvas s)
              \<and> ?w > 0 \<and> ?h > 0
            then set_canvas_size dpr ?w ?h s
            else s"
  have step: "observer_callback dpr (entry # entries) s = observer_callback dpr entries ?t"
    by (simp add: Let_def)
  have t: "?t = s\<lparr>gpu_canvas := gpu_canvas ?t\<rparr>" "gpu_canvas ?t = None \<longleftrightarrow> gpu_canvas s = None"
    "map_option canvas_id (gpu_canvas ?t) = map_option canvas_id (gpu_canvas s)"
    using set_canvas_size_canvas [of dpr ?w ?h s]
    by auto
  from Cons.IH [of ?t] have ih:
    "observer_callback dpr entries ?t
       = ?t\<lparr>gpu_canvas := gpu_canvas (observer_callback dpr entries ?t)\<rparr>"
    "gpu_canvas (observer_callback dpr entries ?t) = None \<longleftrightarrow> gpu_canvas ?t = None"
    "map_option canvas_id (gpu_canvas (observer_callback dpr entries ?t))
       = map_option canvas_id (gpu_canvas ?t)"
    by blast+
  have "observer_callback dpr entries ?t
          = s\<lparr>gpu_canvas := gpu_canvas (observer_callback dpr entries ?t)\<rparr>"
    by (subst ih(1), subst t(1)) simp
  with ih(2,3) t(2,3) show ?case
    unfolding step by simp
qed

lemma on_resize_canvas:
  "on_resize entries s = s\<lparr>gpu_canvas := gpu_canvas (on_resize entries s)\<rparr>"
  "gpu_canvas (on_resize entries s) = None \<longleftrightarrow> gpu_canvas s = None"
  using observer_callback_canvas [of _ entries s]
  by (auto simp: on_resize_def split: option.splits)

lemma on_resize_canvas_id:
  "map_option canvas_id (gpu_canvas (on_resize entries s)) = map_option canvas_id (gpu_canvas s)"
  "observer_dpr (on_resize entries s) = observer_dpr s"
proof -
  show "map_option canvas_id (gpu_canvas (on_resize entries s))
      = map_option canvas_id (gpu_canvas s)"
    using observer_callback_canvas [of _ entries s]
    by (auto simp: on_resize_def split: option.splits)
  have "observer_dpr (on_resize entries s)
      = observer_dpr (s\<lparr>gpu_canvas := gpu_canvas (on_resize entries s)\<rparr>)"
    using on_resize_canvas(1) [of entries s] by simp
  then show "observer_dpr (on_resize entries s) = observer_dpr s"
    by simp
qed

lemma resize_keeps:
  assumes "t = s\<lparr>gpu_canvas := c\<rparr>" and "c = None \<longleftrightarrow> gpu_canvas s = None"
  shows "initialized s \<Longrightarrow> initialized t"
    and "render_safe s \<Longrightarrow> render_safe t"
    and "gpu_renderPipeline t = gpu_renderPipeline s"
    and "raf_requested t = raf_requested s"
    and "queue_submits t = queue_submits s"
  using assms
  by (auto simp: initialized_def render_safe_def uniform_writable_def)

lemmas on_resize_keeps = resize_keeps [OF on_resize_canvas]

subsection \<open>The game loop and the events of the page\<close>

lemma bookkeeping_keeps:
  "initialized (s\<lparr>raf_requested := b\<rparr>) = initialized s"
  "initialized (console_add l m s) = initialized s"
  "render_safe (s\<lparr>raf_requested := b\<rparr>) = render_safe s"
  "render_safe (console_add l m s) = render_safe s"
  by (simp_all add: initialized_def render_safe_def uniform_writable_def console_add_def)

lemma console_add_pipeline:
  "gpu_renderPipeline (console_add l m s) = gpu_renderPipeline s"
  by (simp add: console_add_def)

lemma runGameLoop_returns:
  assumes "fst (render now s) = Inr ()"
  shows "runGameLoop now s = (Inr (), (snd (render now s))\<lparr>raf_requested := True\<rparr>)"
  using assms by (cases "render now s") (simp add: runGameLoop_def seq_def)

lemma handle_initialized:
  assumes "initialized s"
  shows "initialized (handle ev s)"
proof (cases ev)
  case (AnimationFrame now)
  let ?t = "s\<lparr>raf_requested := False\<rparr>"
  have t: "initialized ?t" using assms by (simp add: bookkeeping_keeps)
  from initialized_render [OF t, of now] runGameLoop_returns [of now ?t]
  have "initialized (snd (runGameLoop now ?t))"
    by (simp add: bookkeeping_keeps)
  with AnimationFrame assms show ?thesis by (simp add: handle_def)
next
  case (Resize entries)
  with on_resize_keeps(1) [OF assms, of entries] show ?thesis by (simp add: handle_def)
qed

lemma handle_render_safe:
  assumes "render_safe s"
  shows "render_safe (handle ev s)"
proof (cases ev)
  case (AnimationFrame now)
  let ?t = "s\<lparr>raf_requested := False\<rparr>"
  have t: "render_safe ?t" using assms by (simp add: bookkeeping_keeps)
  from render_safe_render [OF t, of now] runGameLoop_returns [of now ?t]
  have "render_safe (snd (runGameLoop now ?t))"
    by (simp add: bookkeeping_keeps)
  with AnimationFrame assms show ?thesis by (simp add: handle_def)
next
  case (Resize entries)
  with on_resize_keeps(2) [OF assms, of entries] show ?thesis by (simp add: handle_def)
qed

lemma handle_never_started:
  assumes "gpu_renderPipeline s = None" and "\<not> raf_requested s"
  shows "gpu_renderPipeline (handle ev s) = None \<and> \<not> raf_requested (handle ev s)
         \<and> queue_submits (handle ev s) = queue_submits s"
  using assms on_resize_keeps(3,4,5) [of _ s]
  by (cases ev) (simp_all add: handle_def)

lemma run_initialized:
  "initialized s \<Longrightarrow> initialized (run evs s)"
  by (induction evs arbitrary: s) (simp_all add: handle_initialized)

lemma run_render_safe:
  "render_safe s \<Longrightarrow> render_safe (run evs s)"
  by (induction evs arbitrary: s) (simp_all add: handle_render_safe)

lemma run_never_started:
  "gpu_renderPipeline s = None \<Longrightarrow> \<not> raf_requested s \<Longrightarrow>
     gpu_renderPipeline (run evs s) = None \<and> \<not> raf_requested (run evs s)
     \<and> queue_submits (run evs s) = queue_submits s"
proof (induction evs arbitrary: s)
  case Nil
  then show ?case by simp
next
  case (Cons ev evs)
  from handle_never_started [OF Cons.prems, of ev] Cons.IH [of "handle ev s"]
  show ?case by simp
qed

subsection \<open>The start of the script\<close>

lemma initializeWebGPU_render_safe:
  "render_safe (snd (initializeWebGPU env initial_state))"
proof (cases "navigator_gpu env")
  case False
  then show ?thesis
    by (simp add: initializeWebGPU_def throw_def console_add_def render_safe_def
          initial_state_def)
next
  case True
  define s0 where "s0 = console_add console_log ''Initializing WebGPU...'' initial_state"
  obtain r s' where t: "try_body env s0 = (r, s')"
    by (cases "try_body env s0")
  have "render_safe s'"
    using t by (rule try_body_outcome(1)) (simp_all add: s0_def console_add_def initial_state_def)
  with True t show ?thesis
    by (cases r) (simp_all add: initializeWebGPU_def Let_def s0_def [symmetric] bookkeeping_keeps)
qed

lemma initializeWebGPU_fatal:
  assumes "no_device env \<or> no_surface env \<or> shader_creation_throws env"
  shows "fst (initializeWebGPU env initial_state) =
           (if navigator_gpu env then Inr False
            else Inl (Error, ''WebGPU not supported on this browser.''))"
    and "gpu_renderPipeline (snd (initializeWebGPU env initial_state)) = None"
proof -
  define s0 where "s0 = console_add console_log ''Initializing WebGPU...'' initial_state"
  have "fst (initializeWebGPU env initial_state) =
           (if navigator_gpu env then Inr False
            else Inl (Error, ''WebGPU not supported on this browser.''))
        \<and> gpu_renderPipeline (snd (initializeWebGPU env initial_state)) = None"
  proof (cases "navigator_gpu env")
    case False
    then show ?thesis
      by (simp add: initializeWebGPU_def throw_def console_add_def initial_state_def)
  next
    case True
    obtain r s' where t: "try_body env s0 = (r, s')"
      by (cases "try_body env s0")
    have "(\<exists>e. r = Inl e) \<and> gpu_renderPipeline s' = None"
      using t _ _ assms True
      by (rule try_body_outcome(2)) (simp_all add: s0_def console_add_def initial_state_def)
    with True t show ?thesis
      by (auto simp: initializeWebGPU_def Let_def s0_def [symmetric] console_add_pipeline)
  qed
  then show "fst (initializeWebGPU env initial_state) =
           (if navigator_gpu env then Inr False
            else Inl (Error, ''WebGPU not supported on this browser.''))"
    and "gpu_renderPipeline (snd (initializeWebGPU env initial_state)) = None"
    by simp_all
qed

lemma startup_success:
  assumes "fst (initializeWebGPU env initial_state) = Inr True"
  shows "initialized (snd (startup env start initial_state))"
proof -
  obtain s' where i: "initializeWebGPU env initial_state = (Inr True, s')"
    using assms by (cases "initializeWebGPU env initial_state") simp
  let ?t = "console_add console_log ''WebGPU State:'' s'"
  have "initialized ?t"
    using initializeWebGPU_True(1) [OF assms] i by (simp add: bookkeeping_keeps)
  from initialized_render [OF this, of start] runGameLoop_returns [of start ?t]
  have "initialized (snd (runGameLoop start ?t))"
    by (simp add: bookkeeping_keeps)
  with i show ?thesis by (simp add: startup_def)
qed

lemma startup_render_safe:
  "render_safe (snd (startup env start initial_state))"
proof -
  obtain r s' where i: "initializeWebGPU env initial_state = (r, s')"
    by (cases "initializeWebGPU env initial_state")
  have s': "render_safe s'"
    using initializeWebGPU_render_safe [of env] i by simp
  let ?t = "console_add console_log ''WebGPU State:'' s'"
  have "render_safe ?t" using s' by (simp add: bookkeeping_keeps)
  from render_safe_render [OF this, of start] runGameLoop_returns [of start ?t]
  have "render_safe (snd (runGameLoop start ?t))"
    by (simp add: bookkeeping_keeps)
  with i s' show ?thesis
    by (cases r) (simp_all add: startup_def bookkeeping_keeps)
qed

lemma startup_fatal:
  assumes "no_device env \<or> no_surface env \<or> shader_creation_throws env"
  shows "gpu_renderPipeline (snd (startup env start initial_state)) = None"
    and "\<not> raf_requested (snd (startup env start initial_state))"
    and "queue_submits (snd (startup env start initial_state)) = []"
proof -
  obtain r s' where i: "initializeWebGPU env initial_state = (r, s')"
    by (cases "initializeWebGPU env initial_state")
  from initializeWebGPU_fatal [OF assms] i
  have r: "r \<noteq> Inr True" and p: "gpu_renderPipeline s' = None"
    by (auto split: if_splits)
  from initializeWebGPU_frame [of env initial_state] i
  have f: "\<not> raf_requested s'" "queue_submits s' = []"
    by (simp_all add: initial_state_def)
  from i r p f
  show "gpu_renderPipeline (snd (startup env start initial_state)) = None"
    and "\<not> raf_requested (snd (startup env start initial_state))"
    and "queue_submits (snd (startup env start initial_state)) = []"
    by (cases r; simp add: startup_def console_add_def)+
qed

subsection \<open>Reachable states\<close>

lemma reachable_initialized:
  assumes "fst (initializeWebGPU env initial_state) = Inr True"
  shows "initialized (run evs (snd (startup env start initial_state)))"
  using startup_success [OF assms] by (rule run_initialized)

lemma rendered_uniforms:
  assumes "initialized s" and "\<not> zero_size s"
  shows "fst (render now s) = Inr ()"
    and "data_uniforms (snd (render now s))
           = [offset_x now, offset_y now, 0, 0]"
    and "device_buffers (snd (render now s))
           = (device_buffers s)[1 := (device_buffers s ! 1)
                \<lparr>buf_contents := [offset_x now, offset_y now, 0, 0]\<rparr>]"
    and "queue_writes (snd (render now s))
           = queue_writes s @ [(1, 0, [offset_x now, offset_y now, 0, 0])]"
proof -
  from assms(1) obtain conf where c: "gpu_context s = Some (GPUCanvasContext (Some conf))"
    by (auto simp: initialized_def is_configured_iff)
  note e = render_effect [OF assms c refl, of now]
  show "fst (render now s) = Inr ()"
    and "data_uniforms (snd (render now s))
           = [offset_x now, offset_y now, 0, 0]"
    and "device_buffers (snd (render now s))
           = (device_buffers s)[1 := (device_buffers s ! 1)
                \<lparr>buf_contents := [offset_x now, offset_y now, 0, 0]\<rparr>]"
    and "queue_writes (snd (render now s))
           = queue_writes s @ [(1, 0, [offset_x now, offset_y now, 0, 0])]"
    by (simp_all add: e)
qed

lemma rendered_submit:
  assumes "initialized s" and "\<not> zero_size s"
  shows "queue_submits (snd (render now s)) = queue_submits s @
          [[RenderPass
              [\<lparr> att_view = GPUTextureView (canvas_width (the (gpu_canvas s)))
                                (canvas_height (the (gpu_canvas s)))
                                (the (gpu_presentationFormat s)),
                  att_clearValue = GPUColor 0.1 0.1 0.2 1.0,
                  att_loadOp = ''clear'', att_storeOp = ''store'' \<rparr>]
              [setPipeline (the (gpu_renderPipeline s)), setVertexBuffer 0 (Some 0),
               setBindGroup 0 (Some \<lparr>bg_layout = 0, bg_entries = [(0, 1)]\<rparr>),
               draw 3 1 0 0]]]"
proof -
  from assms(1) have c: "gpu_context s =
      Some (GPUCanvasContext
        (Some \<lparr>conf_device = the (gpu_device s),
               conf_format = the (gpu_presentationFormat s),
               conf_alphaMode = ''premultiplied''\<rparr>))"
    by (simp add: initialized_def)
  show ?thesis
    by (simp add: render_effect [OF assms c refl, of now])
qed

subsection \<open>The sample pages\<close>

lemmas init_defs = initializeWebGPU_def try_body_def seq_def call_def throw_def console_add_def
  request_adapter_and_device_def get_canvas_and_context_def configure_context_def
  create_vertex_buffer_def create_uniform_buffer_def create_pipeline_def create_bind_group_def
  device_createBuffer_def queue_writeBuffer_def set_canvas_size_def Math_round_def byteLength_def
  SIZEOF_UNIFORMS_def initial_state_def Let_def

lemma startup_canvas:
  "gpu_canvas (snd (startup env start s)) = gpu_canvas (snd (initializeWebGPU env s))"
  "observer_dpr (snd (startup env start s)) = observer_dpr (snd (initializeWebGPU env s))"
  by (simp_all add: startup_def runGameLoop_def snd_seq render_frame console_add_def
        split: prod.splits sum.splits)

lemma sample_page:
  "fst (initializeWebGPU sample_environment initial_state) = Inr True"
  "gpu_canvas (snd (startup sample_environment start initial_state))
     = Some \<lparr>canvas_id = ''game-canvas'', canvas_width = 640, canvas_height = 480\<rparr>"
  "observer_dpr (snd (startup sample_environment start initial_state)) = Some 1"
  by (simp_all add: startup_canvas)
     (simp_all add: init_defs sample_environment_def float64_values)


lemma sample_page_size:
  "\<not> zero_size (snd (startup sample_environment start initial_state))"
  by (simp add: zero_size_def sample_page)

lemma on_resize_entry:
  assumes "observer_dpr s = Some dpr" and "gpu_canvas s = Some c"
  shows "on_resize [\<lparr>entry_target = canvas_id c, contentRect_width = w,
                      contentRect_height = h\<rparr>] s =
           (if 0 < float64 w \<and> 0 < float64 h
            then s\<lparr>gpu_canvas :=
                    Some (c\<lparr>canvas_width := nat (Math_round (float64 (float64 w * dpr))),
                             canvas_height := nat (Math_round (float64 (float64 h * dpr)))\<rparr>)\<rparr>
            else s)"
  using assms by (simp add: on_resize_def set_canvas_size_def Let_def)

lemma Math_round_zero:
  "nat (Math_round x) = 0 \<longleftrightarrow> x < 1 / 2"
proof -
  have "nat (Math_round x) = 0 \<longleftrightarrow> \<lfloor>x + 1 / 2\<rfloor> \<le> 0"
    by (simp add: Math_round_def)
  also have "\<dots> \<longleftrightarrow> x + 1 / 2 < 1"
    by (simp only: floor_le_zero)
  finally show ?thesis
    by (simp add: field_simps)
qed

lemma zero_size_canvas:
  assumes "gpu_canvas s = Some c"
  shows "zero_size s \<longleftrightarrow> canvas_width c = 0 \<or> canvas_height c = 0"
  using assms by (simp add: zero_size_def)


lemma initializeWebGPU_writes:
  assumes "fst (initializeWebGPU env initial_state) = Inr True"
  shows "queue_writes (snd (initializeWebGPU env initial_state))
           = [(0, 0, data_vertices initial_state), (1, 0, data_uniforms initial_state)]"
proof -
  define s0 where "s0 = console_add console_log ''Initializing WebGPU...'' initial_state"
  have s0: "device_buffers s0 = []" "queue_writes s0 = []"
    "data_vertices s0 = data_vertices initial_state"
    "data_uniforms s0 = data_uniforms initial_state"
    by (simp_all add: s0_def console_add_def initial_state_def)
  from assms have nav: "navigator_gpu env"
    by (rule initializeWebGPU_True(2))
  obtain r s' where t: "try_body env s0 = (r, s')"
    by (cases "try_body env s0")
  from assms nav t have r: "r = Inr ()"
    by (cases r) (auto simp: initializeWebGPU_def Let_def s0_def)
  have s': "snd (initializeWebGPU env initial_state) = s'"
    using nav t r by (simp add: initializeWebGPU_def Let_def s0_def)
  from t r obtain s1 s2 s3 s4 s5 s6 s7 where
    1: "request_adapter_and_device env s0 = (Inr (), s1)" and
    2: "get_canvas_and_context env s1 = (Inr (), s2)" and
    3: "configure_context env s2 = (Inr (), s3)" and
    4: "create_vertex_buffer env s3 = (Inr (), s4)" and
    5: "create_uniform_buffer env s4 = (Inr (), s5)" and
    6: "create_pipeline env s5 = (Inr (), s6)" and
    7: "create_bind_group env s6 = (Inr (), s7)" and
    8: "s' = console_add console_log ''WebGPU Initialized Successfully!'' s7"
    by (auto simp: try_body_def seq_Inr)
  note a = request_adapter_and_device_Inr [OF 1] get_canvas_and_context_Inr [OF 2]
    configure_context_Inr [OF 3]
  have len: "length (data_uniforms s4) = 4"
    using a create_vertex_buffer_Inr [OF 4] s0(4)
    by (clarsimp simp: initial_state_def)
  note b = create_vertex_buffer_Inr [OF 4] create_uniform_buffer_Inr [OF 5 len]
    create_pipeline_Inr [OF 6] create_bind_group_Inr [OF 7]
  show ?thesis
    unfolding s' using a b 8 s0
    by (clarsimp simp: console_add_def)
qed

subsection \<open>The observer of a page that initialised\<close>

lemma run_observer:
  "observer_dpr (run evs s) = observer_dpr s
   \<and> map_option canvas_id (gpu_canvas (run evs s)) = map_option canvas_id (gpu_canvas s)"
proof (induction evs arbitrary: s)
  case Nil
  show ?case by simp
next
  case (Cons ev evs)
  have "observer_dpr (handle ev s) = observer_dpr s
      \<and> map_option canvas_id (gpu_canvas (handle ev s)) = map_option canvas_id (gpu_canvas s)"
    by (cases ev)
       (simp_all add: handle_def runGameLoop_def snd_seq render_frame on_resize_canvas_id
          split: sum.splits)
  with Cons.IH [of "handle ev s"] show ?case
    by simp
qed

lemma initializeWebGPU_observer:
  assumes "fst (initializeWebGPU env initial_state) = Inr True"
  shows "observer_dpr (snd (initializeWebGPU env initial_state))
           = Some (if float64 (devicePixelRatio env) = 0 then 1
                   else float64 (devicePixelRatio env))"
    and "map_option canvas_id (gpu_canvas (snd (initializeWebGPU env initial_state)))
           = Some ''game-canvas''"
proof -
  define s0 where "s0 = console_add console_log ''Initializing WebGPU...'' initial_state"
  have s0: "data_uniforms s0 = data_uniforms initial_state"
    by (simp add: s0_def console_add_def)
  from assms have nav: "navigator_gpu env"
    by (rule initializeWebGPU_True(2))
  obtain r s' where t: "try_body env s0 = (r, s')"
    by (cases "try_body env s0")
  from assms nav t have r: "r = Inr ()"
    by (cases r) (auto simp: initializeWebGPU_def Let_def s0_def)
  have s': "snd (initializeWebGPU env initial_state) = s'"
    using nav t r by (simp add: initializeWebGPU_def Let_def s0_def)
  from t r obtain s1 s2 s3 s4 s5 s6 s7 where
    1: "request_adapter_and_device env s0 = (Inr (), s1)" and
    2: "get_canvas_and_context env s1 = (Inr (), s2)" and
    3: "configure_context env s2 = (Inr (), s3)" and
    4: "create_vertex_buffer env s3 = (Inr (), s4)" and
    5: "create_uniform_buffer env s4 = (Inr (), s5)" and
    6: "create_pipeline env s5 = (Inr (), s6)" and
    7: "create_bind_group env s6 = (Inr (), s7)" and
    8: "s' = console_add console_log ''WebGPU Initialized Successfully!'' s7"
    by (auto simp: try_body_def seq_Inr)
  note a = request_adapter_and_device_Inr [OF 1] get_canvas_and_context_Inr [OF 2]
    configure_context_Inr [OF 3]
  have len: "length (data_uniforms s4) = 4"
    using a create_vertex_buffer_Inr [OF 4] s0
    by (clarsimp simp: initial_state_def)
  note b = create_vertex_buffer_Inr [OF 4] create_uniform_buffer_Inr [OF 5 len]
    create_pipeline_Inr [OF 6] create_bind_group_Inr [OF 7]
  have "observer_dpr s' = observer_dpr s2 \<and> gpu_canvas s' = gpu_canvas s2"
    using a(3) b 8 by (clarsimp simp: console_add_def)
  with a(2) show "observer_dpr (snd (initializeWebGPU env initial_state))
           = Some (if float64 (devicePixelRatio env) = 0 then 1
                   else float64 (devicePixelRatio env))"
    and "map_option canvas_id (gpu_canvas (snd (initializeWebGPU env initial_state)))
           = Some ''game-canvas''"
    by (simp_all add: s')
qed

lemma reachable_observer:
  assumes "fst (initializeWebGPU env initial_state) = Inr True"
  shows "observer_dpr (run evs (snd (startup env start initial_state)))
           = Some (if float64 (devicePixelRatio env) = 0 then 1
                   else float64 (devicePixelRatio env))"
    and "map_option canvas_id (gpu_canvas (run evs (snd (startup env start initial_state))))
           = Some ''game-canvas''"
  using initializeWebGPU_observer [OF assms] run_observer [of evs "snd (startup env start initial_state)"]
  by (simp_all add: startup_canvas)

subsection \<open>More values\<close>

text \<open>
  The doubles \<open>5000\<close>, \<open>5\<close>, \<open>0.25\<close>, \<open>101.25\<close> and \<open>1.2\<close>, and the
  double products of \<open>101.25\<close>, \<open>480\<close> and \<open>640\<close> with the double \<open>1.2\<close>
  (the products are written as one fraction each).
\<close>

lemma float64_more_values:
  "float64 5000 = 5000" "float64 5 = 5" "float64 (1 / 4) = 1 / 4"
  "float64 (405 / 4) = 405 / 4"
  "float64 (6 / 5) = 5404319552844595 / 4503599627370496"
  "float64 (2188749418902060975 / 18014398509481984) = 243 / 2"
  "float64 (81064793292668925 / 140737488355328) = 576"
  "float64 (27021597764222975 / 35184372088832) = 768"
proof -
  show "float64 5000 = 5000"
    unfolding float64_def
    by (subst float_round_eval [where e = 12]) (simp_all add: round_half_even_def power_int_minus)
  show "float64 5 = 5"
    unfolding float64_def
    by (subst float_round_eval [where e = 2]) (simp_all add: round_half_even_def power_int_minus)
  show "float64 (1 / 4) = 1 / 4"
    unfolding float64_def
    by (subst float_round_eval [where e = "- 2"])
       (simp_all add: round_half_even_def power_int_minus)
  show "float64 (405 / 4) = 405 / 4"
    unfolding float64_def
    by (subst float_round_eval [where e = 6]) (simp_all add: round_half_even_def power_int_minus)
  show "float64 (6 / 5) = 5404319552844595 / 4503599627370496"
    unfolding float64_def
    by (subst float_round_eval [where e = 0]) (simp_all add: round_half_even_def power_int_minus)
  show "float64 (2188749418902060975 / 18014398509481984) = 243 / 2"
    unfolding float64_def
    by (subst float_round_eval [where e = 6]) (simp_all add: round_half_even_def power_int_minus)
  show "float64 (81064793292668925 / 140737488355328) = 576"
    unfolding float64_def
    by (subst float_round_eval [where e = 9]) (simp_all add: round_half_even_def power_int_minus)
  show "float64 (27021597764222975 / 35184372088832) = 768"
    unfolding float64_def
    by (subst float_round_eval [where e = 9]) (simp_all add: round_half_even_def power_int_minus)
qed

lemma hidpi_page:
  "fst (initializeWebGPU hidpi_environment initial_state) = Inr True"
  "gpu_canvas (snd (startup hidpi_environment start initial_state))
     = Some \<lparr>canvas_id = ''game-canvas'', canvas_width = 768, canvas_height = 576\<rparr>"
  by (simp_all add: startup_canvas)
     (simp_all add: init_defs sample_environment_def hidpi_environment_def float64_values
        float64_more_values)

lemma silent_shader_page:
  "fst (initializeWebGPU silent_shader_environment initial_state) = Inr True"
  "gpu_canvas (snd (initializeWebGPU silent_shader_environment initial_state))
     = Some \<lparr>canvas_id = ''game-canvas'', canvas_width = 640, canvas_height = 480\<rparr>"
  "device_errors (snd (initializeWebGPU silent_shader_environment initial_state))
     = [''shader compilation failed'']"
  by (simp_all add: init_defs sample_environment_def silent_shader_environment_def float64_values)

text \<open>Sine and cosine change no faster than their argument.\<close>

lemma sin_cos_lipschitz:
  fixes w z :: real
  shows "\<bar>sin w - sin z\<bar> \<le> \<bar>w - z\<bar>" and "\<bar>cos w - cos z\<bar> \<le> \<bar>w - z\<bar>"
proof -
  have "\<bar>sin w - sin z\<bar> = 2 * \<bar>sin ((w - z) / 2)\<bar> * \<bar>cos ((w + z) / 2)\<bar>"
    by (simp add: sin_diff_sin abs_mult)
  also have "\<dots> \<le> 2 * \<bar>(w - z) / 2\<bar> * 1"
    by (intro mult_mono mult_left_mono abs_sin_x_le_abs_x) simp_all
  finally show "\<bar>sin w - sin z\<bar> \<le> \<bar>w - z\<bar>"
    by simp
  have "\<bar>cos w - cos z\<bar> = 2 * \<bar>sin ((w + z) / 2)\<bar> * \<bar>sin ((z - w) / 2)\<bar>"
    by (simp add: cos_diff_cos abs_mult)
  also have "\<dots> \<le> 2 * 1 * \<bar>(z - w) / 2\<bar>"
    by (intro mult_mono mult_left_mono abs_sin_x_le_abs_x) simp_all
  finally show "\<bar>cos w - cos z\<bar> \<le> \<bar>w - z\<bar>"
    by simp
qed

text \<open>The clock reading \<open>500 * pi\<close> milliseconds is the time \<open>pi / 2\<close>, up to rounding.\<close>

lemma quarter_turn_time:
  "\<bar>float64 (float64 (500 * pi) / 1000) - pi / 2\<bar> \<le> 2 powi (- 50)"
proof -
  define a where "a = float64 (500 * pi)"
  have p: "0 < pi" "pi < 4"
    using pi_gt_zero pi_less_4 by simp_all
  then have "\<bar>500 * pi\<bar> < 2 powi 11"
    by simp
  from float_round_error [OF this, of "- 1022" 53]
  have a: "\<bar>a - 500 * pi\<bar> \<le> 2 powi (- 43)"
    by (simp add: a_def float64_def)
  then have q: "\<bar>a / 1000 - pi / 2\<bar> \<le> 2 powi (- 43) / 1000"
    by (simp add: abs_le_iff field_simps)
  have small: "2 powi (- 43) / 1000 \<le> (1 / 100 :: real)"
    by (simp add: power_int_minus)
  from q small p have "\<bar>a / 1000\<bar> < 4"
    by linarith
  then have "\<bar>a / 1000\<bar> < 2 powi 2"
    by simp
  from float_round_error [OF this, of "- 1022" 53]
  have "\<bar>float64 (a / 1000) - a / 1000\<bar> \<le> 2 powi (- 52)"
    by (simp add: float64_def)
  with q have "\<bar>float64 (a / 1000) - pi / 2\<bar> \<le> 2 powi (- 43) / 1000 + 2 powi (- 52)"
    by linarith
  also have "\<dots> \<le> 2 powi (- 50)"
    by (simp add: power_int_minus)
  finally show ?thesis
    by (simp add: a_def)
qed

lemma quarter_turn_offset:
  "\<bar>offset_x (500 * pi) - 0.3\<bar> \<le> 2 powi (- 24)" "\<bar>offset_y (500 * pi)\<bar> \<le> 2 powi (- 24)"
proof -
  define t where "t = float64 (float64 (500 * pi) / 1000)"
  have t: "\<bar>t - pi / 2\<bar> \<le> 2 powi (- 50)"
    using quarter_turn_time by (simp add: t_def)
  from sin_cos_lipschitz [of t "pi / 2"] t
  have sc: "\<bar>sin t - 1\<bar> \<le> 2 powi (- 50)" "\<bar>cos t\<bar> \<le> 2 powi (- 50)"
    by simp_all
  from offset_error [of "500 * pi"]
  have e: "\<bar>offset_x (500 * pi) - 0.3 * sin t\<bar> \<le> 2 powi (- 25)"
    "\<bar>offset_y (500 * pi) - 0.3 * cos t\<bar> \<le> 2 powi (- 25)"
    by (simp_all add: t_def)
  have small: "2 powi (- 25) + 0.3 * 2 powi (- 50) \<le> (2 powi (- 24) :: real)"
    by (simp add: power_int_minus)
  from e(1) sc(1) small show "\<bar>offset_x (500 * pi) - 0.3\<bar> \<le> 2 powi (- 24)"
    by linarith
  from e(2) sc(2) small show "\<bar>offset_y (500 * pi)\<bar> \<le> 2 powi (- 24)"
    by linarith
qed

text \<open>When nothing is missing and no call throws, the initialisation returns \<open>true\<close>.\<close>

lemma initializeWebGPU_succeeds:
  assumes "navigator_gpu env" and "requestAdapter env = Inr (Some a)"
    and "requestDevice env = Inr (Some d)" and "game_canvas env = Some wh"
    and "getContext_webgpu env" and "\<forall>c. throws env c = None"
  shows "fst (initializeWebGPU env initial_state) = Inr True"
  using assms by (simp add: init_defs split: prod.splits)

lemma startup_started:
  assumes "fst (initializeWebGPU env initial_state) = Inr True"
  shows "raf_requested (snd (startup env start initial_state))"
    and "\<not> zero_size (snd (initializeWebGPU env initial_state))
         \<Longrightarrow> queue_submits (snd (startup env start initial_state)) \<noteq> []"
proof -
  obtain s' where i: "initializeWebGPU env initial_state = (Inr True, s')"
    using assms by (cases "initializeWebGPU env initial_state") simp
  let ?t = "console_add console_log ''WebGPU State:'' s'"
  have t: "initialized ?t"
    using initializeWebGPU_True(1) [OF assms] i by (simp add: bookkeeping_keeps)
  from initialized_render [OF this, of start] runGameLoop_returns [of start ?t]
  have r: "runGameLoop start ?t = (Inr (), (snd (render start ?t))\<lparr>raf_requested := True\<rparr>)"
    by simp
  with i show "raf_requested (snd (startup env start initial_state))"
    by (simp add: startup_def)
  assume "\<not> zero_size (snd (initializeWebGPU env initial_state))"
  with i have "\<not> zero_size ?t"
    by (simp add: zero_size_def console_add_def)
  from rendered_submit [OF t this, of start] r i
  show "queue_submits (snd (startup env start initial_state)) \<noteq> []"
    by (simp add: startup_def)
qed

lemma initializeWebGPU_no_throw:
  assumes "\<not> no_device env" and "\<not> no_surface env" and "\<forall>c. throws env c = None"
  shows "fst (initializeWebGPU env initial_state) = Inr True"
proof -
  from assms(1) obtain a d where "navigator_gpu env" "requestAdapter env = Inr (Some a)"
    "requestDevice env = Inr (Some d)"
    by (auto simp: no_device_def split: sum.splits option.splits)
  moreover from assms(2) obtain wh where "game_canvas env = Some wh" "getContext_webgpu env"
    by (auto simp: no_surface_def)
  ultimately show ?thesis
    using assms(3) by (rule initializeWebGPU_succeeds)
qed

section \<open>The claims\<close>

subsection \<open>C1: the offset written each frame\<close>

text \<open>
  Claim C1, as amended.  On a page that initialised successfully, in every state the page
  can reach, a frame drawn at clock reading \<open>now\<close> milliseconds on a canvas of non-zero
  size leaves in the host array the offset \<open>(sin t * 0.3, cos t * 0.3)\<close> as the script
  computes it: in doubles, with \<open>t\<close> the double \<open>now / 1000\<close>, and rounded to single
  precision by the store.  Each component is within \<open>2 ^ -25\<close> of \<open>0.3 * sin t\<close> and
  \<open>0.3 * cos t\<close>; the Euclidean magnitude of the offset is at most \<open>0.3 + 2 ^ -24\<close>
  for all \<open>t\<close>; and at \<open>t = 0\<close> the offset is \<open>(0, 5033165 / 2 ^ 24)\<close>, the single
  precision number \<open>0.300000011920928955078125\<close> nearest to 0.3, not \<open>(0, 0)\<close>.
\<close>

theorem render_uniform_offset:
  assumes "fst (initializeWebGPU env initial_state) = Inr True"
    and "s = run evs (snd (startup env start initial_state))"
    and "\<not> zero_size s"
    and "u = data_uniforms (snd (render now s))"
    and "t = float64 (float64 now / 1000)"
  shows "(u ! 0, u ! 1) = (float32 (float64 (Math_sin t * float64 0.3)),
                            float32 (float64 (Math_cos t * float64 0.3)))
         \<and> \<bar>u ! 0 - 0.3 * sin t\<bar> \<le> 2 powi (- 25)
         \<and> \<bar>u ! 1 - 0.3 * cos t\<bar> \<le> 2 powi (- 25)
         \<and> sqrt ((u ! 0)\<^sup>2 + (u ! 1)\<^sup>2) \<le> 0.3 + 2 powi (- 24)
         \<and> (now = 0 \<longrightarrow> (u ! 0, u ! 1) = (0, 5033165 / 16777216))"
proof -
  have i: "initialized s"
    unfolding assms(2) using assms(1) by (rule reachable_initialized)
  have u: "u = [offset_x now, offset_y now, 0, 0]"
    unfolding assms(4) using i assms(3) by (rule rendered_uniforms(2))
  have v: "u ! 0 = offset_x now" "u ! 1 = offset_y now"
    by (simp_all add: u)
  have a: "(u ! 0, u ! 1) = (float32 (float64 (Math_sin t * float64 0.3)),
                            float32 (float64 (Math_cos t * float64 0.3)))"
    unfolding v assms(5) by (simp add: offset_x_def offset_y_def)
  have b: "\<bar>u ! 0 - 0.3 * sin t\<bar> \<le> 2 powi (- 25)" "\<bar>u ! 1 - 0.3 * cos t\<bar> \<le> 2 powi (- 25)"
    unfolding v assms(5) by (rule offset_error)+
  have c: "sqrt ((u ! 0)\<^sup>2 + (u ! 1)\<^sup>2) \<le> 0.3 + 2 powi (- 24)"
    unfolding v by (rule offset_magnitude)
  have d: "(u ! 0, u ! 1) = (0, 5033165 / 16777216)" if "now = 0"
    unfolding v that by (simp add: offset_at_zero)
  from a b c d show ?thesis
    by blast
qed

text \<open>
  The theorem at the sample page, for the frame drawn at clock reading 0 right after the
  start of the script.
\<close>

theorem render_uniform_offset_witness:
  "fst (initializeWebGPU sample_environment initial_state) = Inr True
   \<and> \<not> zero_size (run [] (snd (startup sample_environment 0 initial_state)))
   \<and> (data_uniforms (snd (render 0 (run [] (snd (startup sample_environment 0 initial_state))))) ! 0,
      data_uniforms (snd (render 0 (run [] (snd (startup sample_environment 0 initial_state))))) ! 1)
       = (0, 5033165 / 16777216)
   \<and> sqrt ((data_uniforms (snd (render 0
               (run [] (snd (startup sample_environment 0 initial_state))))) ! 0)\<^sup>2
           + (data_uniforms (snd (render 0
               (run [] (snd (startup sample_environment 0 initial_state))))) ! 1)\<^sup>2)
       \<le> 0.3 + 2 powi (- 24)"
proof -
  let ?s = "run [] (snd (startup sample_environment 0 initial_state))"
  have z: "\<not> zero_size ?s"
    using sample_page_size [of 0] by simp
  note t = render_uniform_offset [OF sample_page(1) refl z refl refl, where now = 0]
  from t have "(data_uniforms (snd (render 0 ?s)) ! 0, data_uniforms (snd (render 0 ?s)) ! 1)
      = (0, 5033165 / 16777216)"
    by blast
  moreover from t
  have "sqrt ((data_uniforms (snd (render 0 ?s)) ! 0)\<^sup>2 + (data_uniforms (snd (render 0 ?s)) ! 1)\<^sup>2)
      \<le> 0.3 + 2 powi (- 24)"
    by blast
  ultimately show ?thesis
    using sample_page(1) z by blast
qed

text \<open>
  C1 as it was stated fails at \<open>t = 0\<close>: the frame leaves \<open>sin 0 * 0.3 = 0\<close> and
  \<open>cos 0 * 0.3\<close>, rounded to single precision, in the array.  That is not the offset
  \<open>(0, 0)\<close>; its second component is not \<open>0.3 * cos 0\<close>; and its magnitude is above
  0.3.
\<close>

theorem render_uniform_offset_at_zero:
  "(data_uniforms (snd (render 0 (snd (startup sample_environment 0 initial_state)))) ! 0,
    data_uniforms (snd (render 0 (snd (startup sample_environment 0 initial_state)))) ! 1)
     \<noteq> (0, 0)
   \<and> data_uniforms (snd (render 0 (snd (startup sample_environment 0 initial_state)))) ! 1
     \<noteq> 0.3 * cos 0
   \<and> 0.3 < sqrt ((data_uniforms (snd (render 0
                     (snd (startup sample_environment 0 initial_state)))) ! 0)\<^sup>2
                 + (data_uniforms (snd (render 0
                     (snd (startup sample_environment 0 initial_state)))) ! 1)\<^sup>2)"
proof -
  let ?u = "data_uniforms (snd (render 0 (snd (startup sample_environment 0 initial_state))))"
  have u: "?u = [0, 5033165 / 16777216, 0, 0]"
    using rendered_uniforms(2) [OF startup_success [OF sample_page(1)] sample_page_size, of 0 0]
    by (simp add: offset_at_zero)
  have "sqrt ((?u ! 0)\<^sup>2 + (?u ! 1)\<^sup>2) = 5033165 / 16777216"
    unfolding u by simp
  then show ?thesis
    unfolding u by simp
qed

subsection \<open>C2: one pass, one draw, one submission\<close>

text \<open>
  Claim C2.  On a page that initialised successfully, every call of \<open>render\<close> on a canvas
  of non-zero size returns normally and submits exactly one command buffer, which holds
  exactly one render pass: it clears the current texture to \<open>(0.1, 0.1, 0.2, 1.0)\<close>, sets
  the pipeline, the vertex buffer in slot 0 and, as group 0, the bind group whose binding 0
  is the uniform buffer, and issues one draw of 3 vertices and 1 instance.
\<close>

theorem render_submits_one_draw:
  assumes "fst (initializeWebGPU env initial_state) = Inr True"
    and "s = run evs (snd (startup env start initial_state))"
    and "\<not> zero_size s"
  shows "\<exists>canvas format pipeline vb ub bg.
           gpu_canvas s = Some canvas \<and> gpu_presentationFormat s = Some format
           \<and> gpu_renderPipeline s = Some pipeline \<and> gpu_vertexBuffer s = Some vb
           \<and> gpu_uniformBuffer s = Some ub \<and> gpu_bindGroup s = Some bg
           \<and> bg_entries bg = [(0, ub)]
           \<and> fst (render now s) = Inr ()
           \<and> queue_submits (snd (render now s)) = queue_submits s @
               [[RenderPass
                   [\<lparr> att_view = GPUTextureView (canvas_width canvas) (canvas_height canvas)
                                     format,
                       att_clearValue = GPUColor 0.1 0.1 0.2 1.0,
                       att_loadOp = ''clear'', att_storeOp = ''store'' \<rparr>]
                   [setPipeline pipeline, setVertexBuffer 0 (Some vb),
                    setBindGroup 0 (Some bg), draw 3 1 0 0]]]"
proof -
  have i: "initialized s"
    unfolding assms(2) using assms(1) by (rule reachable_initialized)
  from rendered_submit [OF i assms(3), of now] rendered_uniforms(1) [OF i assms(3), of now] i
  show ?thesis
    by (auto simp: initialized_def)
qed

text \<open>The theorem at the sample page, for the frame after the first animation frame.\<close>

theorem render_submits_one_draw_witness:
  "fst (initializeWebGPU sample_environment initial_state) = Inr True
   \<and> \<not> zero_size (run [AnimationFrame 16] (snd (startup sample_environment 0 initial_state)))
   \<and> length (queue_submits (snd (render 33
        (run [AnimationFrame 16] (snd (startup sample_environment 0 initial_state))))))
     = Suc (length (queue_submits
        (run [AnimationFrame 16] (snd (startup sample_environment 0 initial_state)))))"
proof -
  let ?s = "run [AnimationFrame 16] (snd (startup sample_environment 0 initial_state))"
  have "gpu_canvas ?s = gpu_canvas (snd (startup sample_environment 0 initial_state))"
    by (simp add: handle_def runGameLoop_def snd_seq render_frame split: sum.splits)
  then have z: "\<not> zero_size ?s"
    by (simp add: zero_size_def sample_page)
  from render_submits_one_draw [OF sample_page(1) refl z, of 33] sample_page(1) z
  show ?thesis by auto
qed

subsection \<open>C3: resize notifications\<close>

text \<open>
  Claim C3, as amended.  On a page that initialised successfully, in every state the page
  can reach, the observer works with the ratio \<open>dpr\<close> it captured when it was registered,
  which is \<open>window.devicePixelRatio\<close>, or 1 when that is zero.  A resize notification for
  the canvas in which either dimension is zero is ignored: it leaves the whole state, and so
  the size of the canvas and whether it can be presented, as it was.  A notification with
  both dimensions positive sets the size of the canvas to the products of the dimensions
  and \<open>dpr\<close>, computed in doubles and rounded to the nearest integer, for products in the
  range of a canvas size; the canvas can be presented afterwards unless one of the two
  products is below one half and rounds to zero.
\<close>

theorem resize_notification:
  assumes "fst (initializeWebGPU env initial_state) = Inr True"
    and "s = run evs (snd (startup env start initial_state))"
    and "gpu_canvas s = Some c"
    and "dpr = (if float64 (devicePixelRatio env) = 0 then 1
                else float64 (devicePixelRatio env))"
    and "entry = \<lparr>entry_target = ''game-canvas'', contentRect_width = w,
                  contentRect_height = h\<rparr>"
    and "width = float64 w" and "height = float64 h"
  shows "(width = 0 \<or> height = 0 \<longrightarrow> on_resize [entry] s = s)
         \<and> (0 < width \<and> 0 < height
              \<and> 0 \<le> Math_round (float64 (width * dpr))
              \<and> Math_round (float64 (width * dpr)) < 2 ^ 31
              \<and> 0 \<le> Math_round (float64 (height * dpr))
              \<and> Math_round (float64 (height * dpr)) < 2 ^ 31 \<longrightarrow>
              gpu_canvas (on_resize [entry] s)
                = Some (c\<lparr>canvas_width := nat (Math_round (float64 (width * dpr))),
                          canvas_height := nat (Math_round (float64 (height * dpr)))\<rparr>)
              \<and> (zero_size (on_resize [entry] s)
                   \<longleftrightarrow> float64 (width * dpr) < 1 / 2 \<or> float64 (height * dpr) < 1 / 2))"
proof -
  let ?c = "c\<lparr>canvas_width := nat (Math_round (float64 (width * dpr))),
              canvas_height := nat (Math_round (float64 (height * dpr)))\<rparr>"
  have d: "observer_dpr s = Some dpr"
    unfolding assms(2,4) using assms(1) by (rule reachable_observer(1))
  have "map_option canvas_id (gpu_canvas s) = Some ''game-canvas''"
    unfolding assms(2) using assms(1) by (rule reachable_observer(2))
  then have id: "canvas_id c = ''game-canvas''"
    by (simp add: assms(3))
  note r = on_resize_entry [OF d assms(3), of w h, unfolded id, folded assms(5,6,7)]
  have "on_resize [entry] s = s" if "width = 0 \<or> height = 0"
    using that r by auto
  moreover have "gpu_canvas (on_resize [entry] s) = Some ?c
      \<and> (zero_size (on_resize [entry] s)
           \<longleftrightarrow> float64 (width * dpr) < 1 / 2 \<or> float64 (height * dpr) < 1 / 2)"
    if "0 < width \<and> 0 < height"
  proof -
    from that r have c: "gpu_canvas (on_resize [entry] s) = Some ?c"
      by simp
    have "zero_size (on_resize [entry] s)
        \<longleftrightarrow> nat (Math_round (float64 (width * dpr))) = 0
          \<or> nat (Math_round (float64 (height * dpr))) = 0"
      unfolding zero_size_canvas [OF c] by simp
    with c show ?thesis
      by (simp only: Math_round_zero)
  qed
  ultimately show ?thesis
    by blast
qed

text \<open>
  The theorem at the page with device pixel ratio 1.2, whose canvas is 768 by 576 after
  the initialisation: the notification \<open>(0, 480)\<close> leaves it so, and the notification
  \<open>(101.25, 480)\<close> makes it 122 by 576, the double product \<open>101.25 * 1.2\<close> being
  121.5.
\<close>

theorem resize_notification_witness:
  "fst (initializeWebGPU hidpi_environment initial_state) = Inr True
   \<and> gpu_canvas (run [] (snd (startup hidpi_environment 0 initial_state)))
       = Some \<lparr>canvas_id = ''game-canvas'', canvas_width = 768, canvas_height = 576\<rparr>
   \<and> on_resize [canvas_entry 0 480] (run [] (snd (startup hidpi_environment 0 initial_state)))
       = run [] (snd (startup hidpi_environment 0 initial_state))
   \<and> gpu_canvas (on_resize [canvas_entry (405 / 4) 480]
         (run [] (snd (startup hidpi_environment 0 initial_state))))
       = Some \<lparr>canvas_id = ''game-canvas'', canvas_width = 122, canvas_height = 576\<rparr>
   \<and> \<not> zero_size (on_resize [canvas_entry (405 / 4) 480]
            (run [] (snd (startup hidpi_environment 0 initial_state))))"
proof -
  let ?s = "run [] (snd (startup hidpi_environment 0 initial_state))"
  let ?c = "\<lparr>canvas_id = ''game-canvas'', canvas_width = 768, canvas_height = 576\<rparr>"
  have c: "gpu_canvas ?s = Some ?c"
    by (simp add: hidpi_page)
  have d: "(if float64 (devicePixelRatio hidpi_environment) = 0 then 1
            else float64 (devicePixelRatio hidpi_environment))
           = 5404319552844595 / 4503599627370496"
    by (simp add: hidpi_environment_def sample_environment_def float64_more_values)
  from resize_notification [OF hidpi_page(1) refl c refl refl refl refl, of 0 480]
  have "on_resize [canvas_entry 0 480] ?s = ?s"
    by (simp add: canvas_entry_def float64_values)
  moreover
  from resize_notification [OF hidpi_page(1) refl c refl refl refl refl, of "405 / 4" 480]
  have "gpu_canvas (on_resize [canvas_entry (405 / 4) 480] ?s)
          = Some \<lparr>canvas_id = ''game-canvas'', canvas_width = 122, canvas_height = 576\<rparr>
        \<and> \<not> zero_size (on_resize [canvas_entry (405 / 4) 480] ?s)"
    unfolding d by (simp add: canvas_entry_def Math_round_def float64_values float64_more_values)
  ultimately show ?thesis
    using hidpi_page(1) c by blast
qed

text \<open>
  C3 as it was stated fails on the sample page, whose canvas is 640 by 480, in both halves:
  after the notification \<open>(0, 480)\<close> the canvas still has its size, so \<open>render\<close> does
  not skip; and after the notification \<open>(0.25, 480)\<close>, with both dimensions positive, the
  width of the canvas is \<open>round 0.25 = 0\<close>.
\<close>

theorem resize_presentability_counterexample:
  "\<not> zero_size (on_resize [canvas_entry 0 480] (snd (startup sample_environment 0 initial_state)))
   \<and> zero_size (on_resize [canvas_entry (1 / 4) 480]
         (snd (startup sample_environment 0 initial_state)))"
proof -
  let ?s = "snd (startup sample_environment 0 initial_state)"
  let ?c = "\<lparr>canvas_id = ''game-canvas'', canvas_width = 640, canvas_height = 480\<rparr>"
  have d: "observer_dpr ?s = Some 1" and c: "gpu_canvas ?s = Some ?c"
    by (simp_all add: sample_page)
  from on_resize_entry [OF d c, of 0 480]
  have "on_resize [canvas_entry 0 480] ?s = ?s"
    by (simp add: canvas_entry_def float64_values)
  moreover
  from on_resize_entry [OF d c, of "1 / 4" 480]
  have "gpu_canvas (on_resize [canvas_entry (1 / 4) 480] ?s)
          = Some \<lparr>canvas_id = ''game-canvas'', canvas_width = 0, canvas_height = 480\<rparr>"
    by (simp add: canvas_entry_def Math_round_def float64_values float64_more_values)
  ultimately show ?thesis
    using c by (simp add: zero_size_def)
qed

subsection \<open>C4: fatal initialisation failures\<close>

text \<open>
  Claim C4, as amended.  The failures that the script observes are a call that returns
  nothing or throws.  When no device or no surface can be obtained, or the creation of the
  shader module or of the pipeline throws, the game loop is never started, nothing is ever
  submitted, and \<open>render\<close> is a no-op in every state the page reaches afterwards; when
  \<open>navigator.gpu\<close> exists, \<open>initializeWebGPU\<close> reports the failure by returning
  \<open>false\<close>.  A shader that the device fails to compile without any call throwing is
  not detected: when the device and the surface are obtained and no call throws,
  \<open>initializeWebGPU\<close> returns \<open>true\<close> and the game loop is started.
\<close>

theorem fatal_initialization_failure:
  assumes "s = run evs (snd (startup env start initial_state))"
  shows "(no_device env \<or> no_surface env \<or> shader_creation_throws env \<longrightarrow>
            (navigator_gpu env \<longrightarrow> fst (initializeWebGPU env initial_state) = Inr False)
            \<and> \<not> raf_requested s \<and> queue_submits s = [] \<and> render now s = (Inr (), s))
         \<and> (\<not> shader_compiles env \<and> \<not> no_device env \<and> \<not> no_surface env
              \<and> (\<forall>c. throws env c = None) \<longrightarrow>
            fst (initializeWebGPU env initial_state) = Inr True
            \<and> raf_requested (snd (startup env start initial_state)))"
proof -
  have fatal: "(navigator_gpu env \<longrightarrow> fst (initializeWebGPU env initial_state) = Inr False)
      \<and> \<not> raf_requested s \<and> queue_submits s = [] \<and> render now s = (Inr (), s)"
    if cause: "no_device env \<or> no_surface env \<or> shader_creation_throws env"
  proof -
    have p: "gpu_renderPipeline (snd (startup env start initial_state)) = None"
      using cause by (rule startup_fatal(1))
    have r: "\<not> raf_requested (snd (startup env start initial_state))"
      using cause by (rule startup_fatal(2))
    from run_never_started [OF p r, of evs] startup_fatal(3) [OF cause, of start]
    have s: "gpu_renderPipeline s = None" "\<not> raf_requested s" "queue_submits s = []"
      by (simp_all add: assms)
    from s(1) have "\<not> render_guard s"
      by (simp add: render_guard_def)
    with s initializeWebGPU_fatal(1) [OF cause] show ?thesis
      by (simp add: render_not_ready)
  qed
  have silent: "fst (initializeWebGPU env initial_state) = Inr True
      \<and> raf_requested (snd (startup env start initial_state))"
    if "\<not> no_device env" and "\<not> no_surface env" and "\<forall>c. throws env c = None"
  proof -
    from that have "fst (initializeWebGPU env initial_state) = Inr True"
      by (rule initializeWebGPU_no_throw)
    with startup_started(1) [OF this, of start] show ?thesis
      by simp
  qed
  from fatal silent show ?thesis
    by blast
qed

text \<open>
  The theorem at the page whose \<open>createShaderModule\<close> throws, and at the page whose
  device does not compile the shader and throws nothing.
\<close>

theorem fatal_initialization_failure_witness:
  "shader_creation_throws broken_shader_environment
   \<and> navigator_gpu broken_shader_environment
   \<and> fst (initializeWebGPU broken_shader_environment initial_state) = Inr False
   \<and> \<not> raf_requested (run [AnimationFrame 16, Resize [canvas_entry 640 480]]
           (snd (startup broken_shader_environment 0 initial_state)))
   \<and> queue_submits (run [AnimationFrame 16, Resize [canvas_entry 640 480]]
           (snd (startup broken_shader_environment 0 initial_state))) = []
   \<and> render 33 (run [AnimationFrame 16, Resize [canvas_entry 640 480]]
           (snd (startup broken_shader_environment 0 initial_state)))
       = (Inr (), run [AnimationFrame 16, Resize [canvas_entry 640 480]]
           (snd (startup broken_shader_environment 0 initial_state)))
   \<and> \<not> shader_compiles silent_shader_environment
   \<and> \<not> no_device silent_shader_environment \<and> \<not> no_surface silent_shader_environment
   \<and> (\<forall>c. throws silent_shader_environment c = None)
   \<and> fst (initializeWebGPU silent_shader_environment initial_state) = Inr True
   \<and> raf_requested (snd (startup silent_shader_environment 0 initial_state))"
proof -
  let ?s = "run [AnimationFrame 16, Resize [canvas_entry 640 480]]
              (snd (startup broken_shader_environment 0 initial_state))"
  have f: "shader_creation_throws broken_shader_environment"
    by (simp add: shader_creation_throws_def broken_shader_environment_def)
  have n: "navigator_gpu broken_shader_environment"
    by (simp add: broken_shader_environment_def sample_environment_def)
  have q: "\<not> shader_compiles silent_shader_environment"
    "\<not> no_device silent_shader_environment" "\<not> no_surface silent_shader_environment"
    "\<forall>c. throws silent_shader_environment c = None"
    by (simp_all add: silent_shader_environment_def sample_environment_def no_device_def
          no_surface_def)
  from fatal_initialization_failure [OF refl, where env = broken_shader_environment
      and start = 0 and now = 33
      and evs = "[AnimationFrame 16, Resize [canvas_entry 640 480]]"] f n
  have a: "fst (initializeWebGPU broken_shader_environment initial_state) = Inr False
      \<and> \<not> raf_requested ?s \<and> queue_submits ?s = [] \<and> render 33 ?s = (Inr (), ?s)"
    by blast
  from fatal_initialization_failure [OF refl, where env = silent_shader_environment
      and start = 0 and evs = "[]"] q
  have b: "fst (initializeWebGPU silent_shader_environment initial_state) = Inr True
      \<and> raf_requested (snd (startup silent_shader_environment 0 initial_state))"
    by blast
  from f n q a b show ?thesis
    by blast
qed

text \<open>
  C4 as it was stated fails for two of its causes.  On the page whose device does not
  compile the shader, which the device reports without any call throwing,
  \<open>initializeWebGPU\<close> returns \<open>true\<close>, the game loop is started and the first frame
  is submitted.  On a browser without WebGPU, where no device can be obtained,
  \<open>initializeWebGPU\<close> throws instead of returning \<open>false\<close>.
\<close>

theorem undetected_initialization_failure:
  "shader_compilation_fails silent_shader_environment
   \<and> device_errors (snd (initializeWebGPU silent_shader_environment initial_state))
       = [''shader compilation failed'']
   \<and> fst (initializeWebGPU silent_shader_environment initial_state) = Inr True
   \<and> raf_requested (snd (startup silent_shader_environment 0 initial_state))
   \<and> queue_submits (snd (startup silent_shader_environment 0 initial_state)) \<noteq> []
   \<and> no_device no_webgpu_environment
   \<and> fst (initializeWebGPU no_webgpu_environment initial_state)
       = Inl (Error, ''WebGPU not supported on this browser.'')"
proof -
  have "\<not> zero_size (snd (initializeWebGPU silent_shader_environment initial_state))"
    by (simp add: zero_size_def silent_shader_page)
  with startup_started [OF silent_shader_page(1), of 0] silent_shader_page(1,3)
  show ?thesis
    by (simp add: shader_compilation_fails_def silent_shader_environment_def
          no_device_def no_webgpu_environment_def initializeWebGPU_def throw_def)
qed

subsection \<open>C5: frames on a canvas of size zero\<close>



subsection \<open>C6: the shader program and the vertex layout\<close>



subsection \<open>C7: two frames at the same time\<close>

text \<open>
  Claim C7.  On a page that initialised successfully, two calls of \<open>render\<close> in
  succession at the same clock reading leave the same host array of uniforms and the same
  buffer contents; on a canvas of non-zero size both are
  \<open>(sin t * 0.3, cos t * 0.3, 0, 0)\<close> as the script computes them, in doubles rounded
  to single precision, which depends on the time \<open>t\<close>, the double \<open>now / 1000\<close>, alone.
\<close>

theorem render_twice_same_time:
  assumes "fst (initializeWebGPU env initial_state) = Inr True"
    and "s = run evs (snd (startup env start initial_state))"
    and "s1 = snd (render now s)" and "s2 = snd (render now s1)"
    and "t = float64 (float64 now / 1000)"
  shows "data_uniforms s2 = data_uniforms s1
         \<and> device_buffers s2 = device_buffers s1
         \<and> (\<not> zero_size s \<longrightarrow>
               data_uniforms s1
                 = [float32 (float64 (Math_sin t * float64 0.3)),
                    float32 (float64 (Math_cos t * float64 0.3)), 0, 0]
               \<and> buf_contents (device_buffers s1 ! the (gpu_uniformBuffer s))
                   = [float32 (float64 (Math_sin t * float64 0.3)),
                      float32 (float64 (Math_cos t * float64 0.3)), 0, 0])"
proof -
  have i: "initialized s"
    unfolding assms(2) using assms(1) by (rule reachable_initialized)
  then have i1: "initialized s1"
    by (simp add: assms(3) initialized_render(2))
  have c: "gpu_canvas s1 = gpu_canvas s"
    by (simp add: assms(3) render_frame)
  show ?thesis
  proof (cases "zero_size s")
    case True
    then have z1: "zero_size s1"
      by (simp add: zero_size_def c)
    from True i have "s1 = console_add console_warn ''Canvas has zero size, skipping render.'' s"
      by (simp add: assms(3) render_skip initialized_guard)
    moreover
    from z1 i1 have "s2 = console_add console_warn ''Canvas has zero size, skipping render.'' s1"
      by (simp add: assms(4) render_skip initialized_guard)
    ultimately show ?thesis
      using True by (simp add: console_add_def)
  next
    case False
    then have z1: "\<not> zero_size s1"
      by (simp add: zero_size_def c)
    note r = rendered_uniforms(2,3) [OF i False, of now, folded assms(3)]
    note r1 = rendered_uniforms(2,3) [OF i1 z1, of now, folded assms(4)]
    from i have "length (device_buffers s) = 2" "gpu_uniformBuffer s = Some 1"
      by (simp_all add: initialized_def)
    with r r1 False show ?thesis
      by (simp add: offset_x_def offset_y_def assms(5))
  qed
qed

text \<open>The theorem at the sample page, for two frames at clock reading 5000.\<close>

theorem render_twice_same_time_witness:
  "fst (initializeWebGPU sample_environment initial_state) = Inr True
   \<and> \<not> zero_size (run [] (snd (startup sample_environment 0 initial_state)))
   \<and> data_uniforms (snd (render 5000 (snd (render 5000
        (run [] (snd (startup sample_environment 0 initial_state)))))))
     = data_uniforms (snd (render 5000 (run [] (snd (startup sample_environment 0 initial_state)))))
   \<and> data_uniforms (snd (render 5000 (run [] (snd (startup sample_environment 0 initial_state)))))
     = [float32 (float64 (Math_sin 5 * float64 0.3)),
        float32 (float64 (Math_cos 5 * float64 0.3)), 0, 0]"
proof -
  let ?s = "run [] (snd (startup sample_environment 0 initial_state))"
  have z: "\<not> zero_size ?s"
    using sample_page_size [of 0] by simp
  have t: "float64 (float64 5000 / 1000) = 5"
    by (simp add: float64_more_values)
  note r = render_twice_same_time [OF sample_page(1) refl refl refl refl,
      where evs = "[]" and start = 0 and now = 5000, unfolded t]
  from r have "data_uniforms (snd (render 5000 (snd (render 5000 ?s))))
      = data_uniforms (snd (render 5000 ?s))"
    by blast
  moreover from r z have "data_uniforms (snd (render 5000 ?s))
      = [float32 (float64 (Math_sin 5 * float64 0.3)),
         float32 (float64 (Math_cos 5 * float64 0.3)), 0, 0]"
    by blast
  ultimately show ?thesis
    using sample_page(1) z by blast
qed

subsection \<open>C8: the vertex data is written once\<close>

text \<open>
  Claim C8.  On a page that initialised successfully, in every state the page can reach,
  the host vertex array is the literal array of the script; the vertex buffer was written
  exactly once, during the initialisation, and holds that array; a call of \<open>render\<close>
  changes neither the host vertex array nor any buffer other than the uniform buffer, and
  writes to the uniform buffer only.
\<close>

theorem vertex_data_immutable:
  assumes "fst (initializeWebGPU env initial_state) = Inr True"
    and "s = run evs (snd (startup env start initial_state))"
    and "s' = snd (render now s)"
  shows "\<exists>vb ub.
           gpu_vertexBuffer s = Some vb \<and> gpu_uniformBuffer s = Some ub \<and> vb \<noteq> ub
           \<and> data_vertices s
               = [ 0.0,  0.5,   1.0, 0.0, 0.0, 1.0,
                  -0.5, -0.5,   0.0, 1.0, 0.0, 1.0,
                   0.5, -0.5,   0.0, 0.0, 1.0, 1.0]
           \<and> filter (\<lambda>w. fst w = vb) (queue_writes (snd (initializeWebGPU env initial_state)))
               = [(vb, 0, data_vertices s)]
           \<and> filter (\<lambda>w. fst w = vb) (queue_writes s) = [(vb, 0, data_vertices s)]
           \<and> buf_contents (device_buffers s ! vb) = data_vertices s
           \<and> data_vertices s' = data_vertices s
           \<and> (\<forall>b. b \<noteq> ub \<longrightarrow> device_buffers s' ! b = device_buffers s ! b)
           \<and> queue_writes s'
               = queue_writes s @ (if zero_size s then [] else [(ub, 0, data_uniforms s')])"
proof -
  have i: "initialized s"
    unfolding assms(2) using assms(1) by (rule reachable_initialized)
  have v: "data_vertices s' = data_vertices s"
    by (simp add: assms(3) render_frame)
  have w: "filter (\<lambda>w. fst w = 0) (queue_writes (snd (initializeWebGPU env initial_state)))
      = [(0, 0, data_vertices initial_state)]"
    by (simp add: initializeWebGPU_writes [OF assms(1)])
  have r: "(\<forall>b. b \<noteq> 1 \<longrightarrow> device_buffers s' ! b = device_buffers s ! b)
      \<and> queue_writes s' = queue_writes s @ (if zero_size s then [] else [(1, 0, data_uniforms s')])"
  proof (cases "zero_size s")
    case True
    with i show ?thesis
      by (simp add: assms(3) render_skip initialized_guard console_add_def)
  next
    case False
    from rendered_uniforms(2-4) [OF i False, of now] False show ?thesis
      by (simp add: assms(3))
  qed
  from i v w r show ?thesis
    by (simp add: initialized_def initial_state_def)
qed

text \<open>The theorem at the sample page, for the frame after the first animation frame.\<close>

theorem vertex_data_immutable_witness:
  "fst (initializeWebGPU sample_environment initial_state) = Inr True
   \<and> data_vertices (snd (render 33 (run [AnimationFrame 16]
        (snd (startup sample_environment 0 initial_state)))))
      = data_vertices (run [AnimationFrame 16] (snd (startup sample_environment 0 initial_state)))
   \<and> device_buffers (snd (render 33 (run [AnimationFrame 16]
        (snd (startup sample_environment 0 initial_state))))) ! 0
      = device_buffers (run [AnimationFrame 16]
          (snd (startup sample_environment 0 initial_state))) ! 0"
proof -
  let ?s = "run [AnimationFrame 16] (snd (startup sample_environment 0 initial_state))"
  have "gpu_uniformBuffer ?s = Some 1"
    using reachable_initialized [OF sample_page(1), of "[AnimationFrame 16]" 0]
    by (simp add: initialized_def)
  with vertex_data_immutable [OF sample_page(1) refl refl,
      where evs = "[AnimationFrame 16]" and start = 0 and now = 33] sample_page(1)
  show ?thesis
    by auto
qed

subsection \<open>C9: the uniform block\<close>

text \<open>
  Claim C9.  The host array of uniforms starts as four zero floats, 16 bytes.  On a page
  that initialised successfully the uniform buffer has 16 bytes, and every frame that is
  drawn writes all four floats to it, at offset 0: the two offsets as the script computes
  them at the time \<open>t\<close>, the double \<open>now / 1000\<close>, and two zeros.
\<close>

theorem uniform_block:
  assumes "fst (initializeWebGPU env initial_state) = Inr True"
    and "s = run evs (snd (startup env start initial_state))"
    and "s' = snd (render now s)"
    and "t = float64 (float64 now / 1000)"
  shows "data_uniforms initial_state = [0, 0, 0, 0] \<and> SIZEOF_UNIFORMS = 16
         \<and> (\<exists>ub. gpu_uniformBuffer s = Some ub \<and> ub < length (device_buffers s)
              \<and> buf_size (device_buffers s ! ub) = SIZEOF_UNIFORMS
              \<and> 16 \<le> buf_size (device_buffers s ! ub)
              \<and> length (data_uniforms s) = 4
              \<and> data_uniforms s ! 2 = 0 \<and> data_uniforms s ! 3 = 0
              \<and> (\<not> zero_size s \<longrightarrow>
                    queue_writes s' = queue_writes s @
                      [(ub, 0, [float32 (float64 (Math_sin t * float64 0.3)),
                                float32 (float64 (Math_cos t * float64 0.3)), 0, 0])]
                    \<and> buf_contents (device_buffers s' ! ub)
                        = [float32 (float64 (Math_sin t * float64 0.3)),
                           float32 (float64 (Math_cos t * float64 0.3)), 0, 0]))"
proof -
  have i: "initialized s"
    unfolding assms(2) using assms(1) by (rule reachable_initialized)
  have size: "data_uniforms initial_state = [0, 0, 0, 0] \<and> SIZEOF_UNIFORMS = 16"
    by (simp add: SIZEOF_UNIFORMS_def byteLength_def initial_state_def)
  have r: "queue_writes s' = queue_writes s @
                      [(1, 0, [float32 (float64 (Math_sin t * float64 0.3)),
                               float32 (float64 (Math_cos t * float64 0.3)), 0, 0])]
       \<and> buf_contents (device_buffers s' ! 1)
                        = [float32 (float64 (Math_sin t * float64 0.3)),
                           float32 (float64 (Math_cos t * float64 0.3)), 0, 0]"
    if "\<not> zero_size s"
    using rendered_uniforms(3,4) [OF i that, of now] i
    by (simp add: assms(3,4) initialized_def offset_x_def offset_y_def)
  from i size r show ?thesis
    by (simp add: initialized_def)
qed

text \<open>
  The theorem at the sample page, for a frame at \<open>500 * pi\<close> milliseconds, that is at
  \<open>t = pi / 2\<close> up to rounding: the uniform buffer holds four floats, \<open>(0.3, 0, 0, 0)\<close>
  up to \<open>2 ^ -24\<close> in the first two and exactly zero in the last two.
\<close>

theorem uniform_block_witness:
  "fst (initializeWebGPU sample_environment initial_state) = Inr True
   \<and> \<not> zero_size (run [] (snd (startup sample_environment 0 initial_state)))
   \<and> (\<exists>x y. buf_contents (device_buffers (snd (render (500 * pi)
                (run [] (snd (startup sample_environment 0 initial_state))))) ! 1)
              = [x, y, 0, 0]
            \<and> \<bar>x - 0.3\<bar> \<le> 2 powi (- 24) \<and> \<bar>y\<bar> \<le> 2 powi (- 24))"
proof -
  let ?s = "run [] (snd (startup sample_environment 0 initial_state))"
  define t where "t = float64 (float64 (500 * pi) / 1000)"
  have u: "gpu_uniformBuffer ?s = Some 1"
    using reachable_initialized [OF sample_page(1), of "[]" 0]
    by (simp add: initialized_def)
  have z: "\<not> zero_size ?s"
    using sample_page_size [of 0] by simp
  from uniform_block [OF sample_page(1) refl refl t_def,
      where evs = "[]" and start = 0] u z
  have "buf_contents (device_buffers (snd (render (500 * pi) ?s)) ! 1)
      = [float32 (float64 (Math_sin t * float64 0.3)),
         float32 (float64 (Math_cos t * float64 0.3)), 0, 0]"
    by auto
  then have "buf_contents (device_buffers (snd (render (500 * pi) ?s)) ! 1)
      = [offset_x (500 * pi), offset_y (500 * pi), 0, 0]"
    by (simp add: offset_x_def offset_y_def t_def)
  with quarter_turn_offset sample_page(1) z show ?thesis
    by blast
qed

subsection \<open>C10: render before or without initialisation\<close>

text \<open>
  Claim C10.  When the device, the context, the pipeline, the canvas or the vertex buffer
  is missing, \<open>render\<close> returns normally and leaves the whole state as it was; this is so
  before the initialisation, and while it waits for the adapter or the device, when there
  is no device yet.  Whatever the browser gives to the initialisation, and whether it
  succeeds or fails, no call of \<open>render\<close> in a state the page reaches afterwards throws.
\<close>

theorem render_without_initialization:
  "(gpu_device s = None \<or> gpu_context s = None \<or> gpu_renderPipeline s = None
      \<or> gpu_canvas s = None \<or> gpu_vertexBuffer s = None
    \<longrightarrow> render now s = (Inr (), s))
   \<and> render now initial_state = (Inr (), initial_state)
   \<and> fst (render now (run evs (snd (startup env start initial_state)))) = Inr ()"
proof -
  have "render now s = (Inr (), s)"
    if "gpu_device s = None \<or> gpu_context s = None \<or> gpu_renderPipeline s = None
      \<or> gpu_canvas s = None \<or> gpu_vertexBuffer s = None"
    using that by (auto simp: render_guard_def intro: render_not_ready)
  moreover have "render now initial_state = (Inr (), initial_state)"
    by (rule render_not_ready) (simp add: render_guard_def initial_state_def)
  moreover have "fst (render now (run evs (snd (startup env start initial_state)))) = Inr ()"
    by (intro render_safe_render(1) run_render_safe startup_render_safe)
  ultimately show ?thesis
    by blast
qed

text \<open>
  The theorem at the page whose shader module cannot be created: the device is there, the
  pipeline is not, and \<open>render\<close> does nothing.
\<close>

theorem render_without_initialization_witness:
  "gpu_device (snd (startup broken_shader_environment 0 initial_state)) \<noteq> None
   \<and> gpu_renderPipeline (snd (startup broken_shader_environment 0 initial_state)) = None
   \<and> render 16 (snd (startup broken_shader_environment 0 initial_state))
       = (Inr (), snd (startup broken_shader_environment 0 initial_state))"
proof -
  let ?s = "snd (startup broken_shader_environment 0 initial_state)"
  have f: "shader_creation_throws broken_shader_environment"
    by (simp add: shader_creation_throws_def broken_shader_environment_def)
  have p: "gpu_renderPipeline ?s = None"
    using f by (intro startup_fatal(1)) simp
  have "gpu_device ?s = gpu_device (snd (initializeWebGPU broken_shader_environment initial_state))"
    by (simp add: startup_def runGameLoop_def snd_seq render_frame console_add_def
          split: prod.splits sum.splits)
  also have "\<dots> = Some GPUDevice"
    by (simp add: init_defs broken_shader_environment_def sample_environment_def)
  finally have d: "gpu_device ?s \<noteq> None"
    by simp
  from render_without_initialization [of ?s 16] p d show ?thesis
    by simp
qed

end
